theory Spec2Isabelle
  imports Complex_Main "HOL-Library.Word" "HOL-Library.AList" "HOL-Library.Log_Nat"
begin

section \<open>Entry attributes of wash: the data model\<close>

text \<open>
  The second document of \<^verbatim>\<open>src/cmd/history.go\<close> is package \<^verbatim>\<open>plugin\<close>: the record
  \<^verbatim>\<open>EntryAttributes\<close>, its getters and setters, \<^verbatim>\<open>ToMap\<close>, \<^verbatim>\<open>Meta\<close>, \<^verbatim>\<open>SetMeta\<close>,
  \<^verbatim>\<open>ToJSONObject\<close>, \<^verbatim>\<open>MarshalJSON\<close> and \<^verbatim>\<open>UnmarshalJSON\<close>. This theory embeds that
  code. What the code calls and does not define is modelled as follows.

  \<^item> Go's \<^verbatim>\<open>time.Time\<close> is the instant only: seconds since January 1 of year 1, 00:00:00
    UTC, and nanoseconds within the second. The location and the monotonic clock reading
    are left out, and every time is printed in UTC.
  \<^item> A \<^verbatim>\<open>float64\<close> is the rational number it denotes; NaN, the infinities and the sign
    of zero are left out (no JSON text decodes to them).
  \<^item> A \<^verbatim>\<open>[]byte\<close> holding JSON text is that text already scanned: the JSON value it
    spells, or \<open>NotJSON\<close> for bytes that Go's scanner rejects. A number literal is the
    rational it denotes; a string is its sequence of characters (assumed valid UTF-8).
  \<^item> \<^verbatim>\<open>map[string]interface{}\<close> is an association list with one entry per key;
    \<^verbatim>\<open>m[k] = v\<close> is \<^const>\<open>AList.update\<close>, \<^verbatim>\<open>v, ok := m[k]\<close> is \<^const>\<open>map_of\<close>.
  \<^item> Package \<^verbatim>\<open>munge\<close> (\<^verbatim>\<open>munge.ToTime\<close>, \<^verbatim>\<open>munge.ToSize\<close>) is not among the sources.
    \<^verbatim>\<open>UnmarshalJSON\<close> takes the two conversions as parameters, so what is proved of it
    holds for every coercion service.
\<close>

subsection \<open>Moments in time\<close>

record Time =
  sec :: int
  nsec :: int

text \<open>\<^verbatim>\<open>time.Time{}\<close>, the zero value.\<close>

definition zeroTime :: Time where
  "zeroTime = \<lparr>sec = 0, nsec = 0\<rparr>"

text \<open>\<^verbatim>\<open>func (t Time) IsZero() bool { return t.sec() == 0 && t.nsec() == 0 }\<close>\<close>

definition IsZero :: "Time \<Rightarrow> bool" where
  "IsZero t = (sec t = 0 \<and> nsec t = 0)"

subsection \<open>JSON texts and Go's dynamic values\<close>

datatype json =
    JNull
  | JBool bool
  | JNumber rat
  | JString string
  | JArray "json list"
  | JObject "(string \<times> json) list"

datatype bytes = NotJSON | Text json

text \<open>
  The values an \<^verbatim>\<open>interface{}\<close> holds in this code: what \<^verbatim>\<open>ToMap\<close> stores, what
  \<^verbatim>\<open>json.Unmarshal\<close> produces, and the kinds of object a plugin hands to \<^verbatim>\<open>SetMeta\<close>
  (a struct is the list of its exported fields under their JSON names; \<open>VChan\<close> stands
  for the kinds \<^verbatim>\<open>encoding/json\<close> cannot encode). A \<open>VObject\<close> is a non-nil \<^verbatim>\<open>JSONObject\<close>.
\<close>

datatype gval =
    VNil
  | VBool bool
  | VFloat64 rat
  | VString string
  | VArray "gval list"
  | VObject "(string \<times> gval) list"
  | VTime Time
  | VUint64 "64 word"
  | VFileMode "32 word"
  | VStruct "(string \<times> gval) list"
  | VChan

text \<open>
  The argument of \<^verbatim>\<open>ToJSONObject\<close> and \<^verbatim>\<open>SetMeta\<close>: a \<^verbatim>\<open>[]byte\<close> (taken as JSON text by
  \<^verbatim>\<open>ToJSONObject\<close>), or any other value.
\<close>

datatype arg = Raw bytes | Val gval

datatype error =
    SyntaxError
  | UnmarshalTypeError string
  | MarshalerError string
  | UnsupportedTypeError
  | CoercionError gval
  | NonJSONObject
  | MetaNotJSONObject
  | ModeUnexpectedType gval
  | AttrMunge string error

text \<open>
  A call that may not return: \<^verbatim>\<open>panic(err)\<close>, or \<^verbatim>\<open>errz.Fatal(err)\<close> with a non-nil
  error.
\<close>

datatype 'a outcome = Return 'a | Panic error | Fatal error

subsection \<open>The record\<close>

record EntryAttributes =
  atime :: Time
  mtime :: Time
  ctime :: Time
  mode :: "32 word"
  hasMode :: bool
  size' :: "64 word"
  hasSize :: bool
  meta :: "(string \<times> gval) list option"

text \<open>\<^verbatim>\<open>plugin.EntryAttributes{}\<close>: every field at its zero value, the map nil.\<close>

definition emptyAttributes :: EntryAttributes where
  "emptyAttributes =
     \<lparr>atime = zeroTime, mtime = zeroTime, ctime = zeroTime, mode = 0, hasMode = False,
      size' = 0, hasSize = False, meta = None\<rparr>"

subsection \<open>Go's standard library: \<^verbatim>\<open>time\<close>, \<^verbatim>\<open>strconv\<close>, \<^verbatim>\<open>os\<close>\<close>

text \<open>
  The civil date of a day count (days since January 1 of year 1, proleptic Gregorian
  calendar), as \<^verbatim>\<open>Time.Date\<close> computes it: year, month, day.
\<close>

definition civil_from_days :: "int \<Rightarrow> int \<times> int \<times> int" where
  "civil_from_days n =
     (let z = n + 306;
          era = z div 146097;
          doe = z mod 146097;
          yoe = (doe - doe div 1460 + doe div 36524 - doe div 146096) div 365;
          doy = doe - (365 * yoe + yoe div 4 - yoe div 100);
          mp = (5 * doy + 2) div 153;
          d = doy - (153 * mp + 2) div 5 + 1;
          m = (if mp < 10 then mp + 3 else mp - 9);
          y = yoe + era * 400 + (if m \<le> 2 then 1 else 0)
      in (y, m, d))"

definition Year :: "Time \<Rightarrow> int" where
  "Year t = fst (civil_from_days (sec t div 86400))"

definition digit :: "int \<Rightarrow> char" where
  "digit n = ''0123456789'' ! nat n"

text \<open>\<open>digits k n\<close>: the last \<open>k\<close> decimal digits of \<open>n\<close>, zero padded.\<close>

fun digits :: "nat \<Rightarrow> int \<Rightarrow> string" where
  "digits 0 n = []"
| "digits (Suc k) n = digits k (n div 10) @ [digit (n mod 10)]"

text \<open>The fraction of the layout \<^verbatim>\<open>.999999999\<close>: nothing for zero, else no trailing zero.\<close>

definition fraction :: "int \<Rightarrow> string" where
  "fraction ns =
     (if ns = 0 then []
      else CHR ''.'' # rev (dropWhile (\<lambda>c. c = CHR ''0'') (rev (digits 9 ns))))"

text \<open>\<^verbatim>\<open>t.Format(time.RFC3339Nano)\<close>, layout \<^verbatim>\<open>2006-01-02T15:04:05.999999999Z07:00\<close>, in UTC.\<close>

definition formatRFC3339Nano :: "Time \<Rightarrow> string" where
  "formatRFC3339Nano t =
     (case civil_from_days (sec t div 86400) of (y, m, d) \<Rightarrow>
        let s = sec t mod 86400 in
        digits 4 y @ ''-'' @ digits 2 m @ ''-'' @ digits 2 d @ ''T''
        @ digits 2 (s div 3600) @ '':'' @ digits 2 (s mod 3600 div 60) @ '':''
        @ digits 2 (s mod 60) @ fraction (nsec t) @ ''Z'')"

text \<open>
  \<^verbatim>\<open>Time.MarshalJSON\<close>: the quoted RFC 3339 text, and an error for a year outside
  \<^verbatim>\<open>[0,9999]\<close>. The result here is the content of the JSON string.
\<close>

definition Time_MarshalJSON :: "Time \<Rightarrow> error + string" where
  "Time_MarshalJSON t =
     (if Year t < 0 \<or> 10000 \<le> Year t
      then Inl (MarshalerError ''Time.MarshalJSON: year outside of range [0,9999]'')
      else Inr (formatRFC3339Nano t))"

text \<open>\<open>ilog2 x\<close> is the integer part of the binary logarithm of a positive rational.\<close>

definition ilog2 :: "rat \<Rightarrow> int" where
  "ilog2 x =
     (case quotient_of x of (p, q) \<Rightarrow>
        let k = bitlen p - bitlen q
        in if of_int q * 2 powi k \<le> (of_int p :: rat) then k else k - 1)"

text \<open>Rounding to the nearest integer, a tie to the even one.\<close>

definition round_half_even :: "rat \<Rightarrow> int" where
  "round_half_even x =
     (let f = \<lfloor>x\<rfloor>; d = x - of_int f
      in if d < 1 / 2 then f else if 1 / 2 < d then f + 1 else if even f then f else f + 1)"

text \<open>
  \<^verbatim>\<open>strconv.ParseFloat(s, 64)\<close> on the number that \<open>s\<close> spells: the nearest \<^verbatim>\<open>float64\<close>
  (53 bits of precision, the smallest spacing \<open>2 powi -1074\<close>, ties to even); \<open>None\<close> is
  \<^verbatim>\<open>ErrRange\<close>, for a result beyond the largest finite \<^verbatim>\<open>float64\<close>.
\<close>

definition float64_of :: "rat \<Rightarrow> rat option" where
  "float64_of x =
     (if x = 0 then Some 0
      else let e = max (- 1074) (ilog2 \<bar>x\<bar> - 52);
               y = of_int (round_half_even (x / 2 powi e)) * 2 powi e
           in if 2 ^ 1024 \<le> \<bar>y\<bar> then None else Some y)"

text \<open>
  The conversion \<^verbatim>\<open>os.FileMode(raw)\<close> of a \<^verbatim>\<open>float64\<close>, \<^verbatim>\<open>FileMode\<close> being a \<^verbatim>\<open>uint32\<close>:
  the fraction is discarded, which for a number from 0 up to (not including) \<open>2 ^ 32\<close>
  gives a value that \<^verbatim>\<open>uint32\<close> holds. For any other number the conversion succeeds
  and Go leaves the result to the implementation: the model gives a value of which
  nothing is known.
\<close>

definition FileMode_of_float64 :: "rat \<Rightarrow> 32 word" where
  "FileMode_of_float64 raw =
     (if 0 \<le> raw \<and> raw < 2 ^ 32 then word_of_int \<lfloor>raw\<rfloor> else undefined raw)"

text \<open>
  \<^verbatim>\<open>func (m FileMode) String() string\<close>: one letter of \<^verbatim>\<open>dalTLDpSugct?\<close> for each of the
  bits 31 down to 19 that is set (\<^verbatim>\<open>-\<close> if none is), then \<^verbatim>\<open>rwxrwxrwx\<close> for the bits 8
  down to 0, \<^verbatim>\<open>-\<close> for a bit that is not set.
\<close>

definition FileMode_String :: "32 word \<Rightarrow> string" where
  "FileMode_String m =
     (let buf = concat (map (\<lambda>(i, c). if bit m (31 - i) then [c] else [])
                          (zip [0..<13] ''dalTLDpSugct?''))
      in (if buf = [] then ''-'' else buf)
         @ map (\<lambda>(i, c). if bit m (8 - i) then c else CHR ''-'') (zip [0..<9] ''rwxrwxrwx''))"

subsection \<open>Go's \<^verbatim>\<open>encoding/json\<close>\<close>

text \<open>
  \<^verbatim>\<open>json.Marshal(v)\<close>, as the JSON value of the text it writes. An unsigned integer is
  written in full; a time through \<^const>\<open>Time_MarshalJSON\<close>; a map or struct as an object
  (Go sorts a map's keys; the order of an object's members has no effect on decoding).
\<close>

fun json_Marshal :: "gval \<Rightarrow> error + json"
  and marshal_elems :: "gval list \<Rightarrow> error + json list"
  and marshal_fields :: "(string \<times> gval) list \<Rightarrow> error + (string \<times> json) list" where
  "json_Marshal VNil = Inr JNull"
| "json_Marshal (VBool b) = Inr (JBool b)"
| "json_Marshal (VFloat64 x) = Inr (JNumber x)"
| "json_Marshal (VString s) = Inr (JString s)"
| "json_Marshal (VArray vs) =
     (case marshal_elems vs of Inl err \<Rightarrow> Inl err | Inr js \<Rightarrow> Inr (JArray js))"
| "json_Marshal (VObject kvs) =
     (case marshal_fields kvs of Inl err \<Rightarrow> Inl err | Inr js \<Rightarrow> Inr (JObject js))"
| "json_Marshal (VTime t) =
     (case Time_MarshalJSON t of Inl err \<Rightarrow> Inl err | Inr s \<Rightarrow> Inr (JString s))"
| "json_Marshal (VUint64 n) = Inr (JNumber (of_int (uint n)))"
| "json_Marshal (VFileMode m) = Inr (JNumber (of_int (uint m)))"
| "json_Marshal (VStruct kvs) =
     (case marshal_fields kvs of Inl err \<Rightarrow> Inl err | Inr js \<Rightarrow> Inr (JObject js))"
| "json_Marshal VChan = Inl UnsupportedTypeError"
| "marshal_elems [] = Inr []"
| "marshal_elems (v # vs) =
     (case json_Marshal v of Inl err \<Rightarrow> Inl err
      | Inr j \<Rightarrow> (case marshal_elems vs of Inl err \<Rightarrow> Inl err | Inr js \<Rightarrow> Inr (j # js)))"
| "marshal_fields [] = Inr []"
| "marshal_fields ((k, v) # kvs) =
     (case json_Marshal v of Inl err \<Rightarrow> Inl err
      | Inr j \<Rightarrow> (case marshal_fields kvs of Inl err \<Rightarrow> Inl err
                  | Inr js \<Rightarrow> Inr ((k, j) # js)))"

text \<open>A decoded object's members stored into a map one after another: a later duplicate wins.\<close>

definition store_members :: "(string \<times> gval) list \<Rightarrow> (string \<times> gval) list" where
  "store_members ds = foldl (\<lambda>m (k, v). AList.update k v m) [] ds"

text \<open>
  \<^verbatim>\<open>json.Unmarshal\<close> into an \<^verbatim>\<open>interface{}\<close>: \<^verbatim>\<open>nil\<close>, \<^verbatim>\<open>bool\<close>, \<^verbatim>\<open>float64\<close>, \<^verbatim>\<open>string\<close>,
  \<^verbatim>\<open>[]interface{}\<close> or \<^verbatim>\<open>map[string]interface{}\<close>. A number out of the range of
  \<^verbatim>\<open>float64\<close> makes the whole call return an \<^verbatim>\<open>UnmarshalTypeError\<close>.
\<close>

fun decode_interface :: "json \<Rightarrow> error + gval"
  and decode_elems :: "json list \<Rightarrow> error + gval list"
  and decode_fields :: "(string \<times> json) list \<Rightarrow> error + (string \<times> gval) list" where
  "decode_interface JNull = Inr VNil"
| "decode_interface (JBool b) = Inr (VBool b)"
| "decode_interface (JNumber q) =
     (case float64_of q of None \<Rightarrow> Inl (UnmarshalTypeError ''number'')
      | Some x \<Rightarrow> Inr (VFloat64 x))"
| "decode_interface (JString s) = Inr (VString s)"
| "decode_interface (JArray js) =
     (case decode_elems js of Inl err \<Rightarrow> Inl err | Inr vs \<Rightarrow> Inr (VArray vs))"
| "decode_interface (JObject kjs) =
     (case decode_fields kjs of Inl err \<Rightarrow> Inl err
      | Inr ds \<Rightarrow> Inr (VObject (store_members ds)))"
| "decode_elems [] = Inr []"
| "decode_elems (j # js) =
     (case decode_interface j of Inl err \<Rightarrow> Inl err
      | Inr v \<Rightarrow> (case decode_elems js of Inl err \<Rightarrow> Inl err | Inr vs \<Rightarrow> Inr (v # vs)))"
| "decode_fields [] = Inr []"
| "decode_fields ((k, j) # kjs) =
     (case decode_interface j of Inl err \<Rightarrow> Inl err
      | Inr v \<Rightarrow> (case decode_fields kjs of Inl err \<Rightarrow> Inl err
                  | Inr ds \<Rightarrow> Inr ((k, v) # ds)))"

text \<open>
  \<^verbatim>\<open>json.Unmarshal(data, &obj)\<close> for \<^verbatim>\<open>obj\<close> of type \<^verbatim>\<open>map[string]interface{}\<close>: the
  result is the error and the map afterwards. The JSON literal \<^verbatim>\<open>null\<close> sets the map to
  \<^verbatim>\<open>nil\<close> (\<open>None\<close>) and is no error; an object is decoded member by member; every other
  JSON value is an \<^verbatim>\<open>UnmarshalTypeError\<close>, and bytes that are no JSON text a
  \<^verbatim>\<open>SyntaxError\<close>.
\<close>

definition json_Unmarshal_map :: "bytes \<Rightarrow> error + (string \<times> gval) list option" where
  "json_Unmarshal_map data =
     (case data of
        NotJSON \<Rightarrow> Inl SyntaxError
      | Text JNull \<Rightarrow> Inr None
      | Text (JBool b) \<Rightarrow> Inl (UnmarshalTypeError ''bool'')
      | Text (JNumber q) \<Rightarrow> Inl (UnmarshalTypeError ''number'')
      | Text (JString s) \<Rightarrow> Inl (UnmarshalTypeError ''string'')
      | Text (JArray js) \<Rightarrow> Inl (UnmarshalTypeError ''array'')
      | Text (JObject kjs) \<Rightarrow>
          (case decode_fields kjs of Inl err \<Rightarrow> Inl err
           | Inr ds \<Rightarrow> Inr (Some (store_members ds))))"

text \<open>\<^verbatim>\<open>v, ok := mp[k]\<close>; a nil map has no key.\<close>

definition index :: "(string \<times> gval) list option \<Rightarrow> string \<Rightarrow> gval option" where
  "index mp k = (case mp of None \<Rightarrow> None | Some m \<Rightarrow> map_of m k)"

section \<open>Package plugin\<close>

subsection \<open>\<^verbatim>\<open>ToJSONObject\<close>\<close>

text \<open>
  \<^verbatim>\<open>func ToJSONObject(v interface{}) JSONObject\<close>. A \<^verbatim>\<open>JSONObject\<close> is returned as it is;
  a \<^verbatim>\<open>[]byte\<close> is taken as the text \<^verbatim>\<open>inrec\<close>, any other value is marshalled to it
  (\<^verbatim>\<open>panic(err)\<close> when that fails); then \<^verbatim>\<open>errz.Fatal(json.Unmarshal(inrec, &obj))\<close>
  and \<^verbatim>\<open>return obj\<close>. The result is \<open>None\<close> for the nil map.
\<close>

definition ToJSONObject :: "arg \<Rightarrow> (string \<times> gval) list option outcome" where
  "ToJSONObject v =
     (case v of
        Val (VObject obj) \<Rightarrow> Return (Some obj)
      | _ \<Rightarrow>
        (case (case v of
                 Raw arr \<Rightarrow> Inr arr
               | Val x \<Rightarrow> (case json_Marshal x of Inl err \<Rightarrow> Inl err
                           | Inr j \<Rightarrow> Inr (Text j))) of
           Inl err \<Rightarrow> Panic err
         | Inr inrec \<Rightarrow>
             (case json_Unmarshal_map inrec of
                Inl err \<Rightarrow> Fatal err
              | Inr obj \<Rightarrow> Return obj)))"

text \<open>
  The serialization that \<^verbatim>\<open>ToJSONObject\<close> reads: the bytes \<^verbatim>\<open>inrec\<close>, which are the
  argument itself for a \<^verbatim>\<open>[]byte\<close> and the result of \<^verbatim>\<open>json.Marshal\<close> otherwise.
\<close>

definition serialization :: "arg \<Rightarrow> error + bytes" where
  "serialization v =
     (case v of
        Raw arr \<Rightarrow> Inr arr
      | Val x \<Rightarrow> (case json_Marshal x of Inl err \<Rightarrow> Inl err | Inr j \<Rightarrow> Inr (Text j)))"

subsection \<open>Getters and setters\<close>

definition HasAtime :: "EntryAttributes \<Rightarrow> bool" where
  "HasAtime a = (\<not> IsZero (atime a))"

definition Atime :: "EntryAttributes \<Rightarrow> Time" where
  "Atime a = atime a"

definition SetAtime :: "EntryAttributes \<Rightarrow> Time \<Rightarrow> EntryAttributes" where
  "SetAtime a t = a\<lparr>atime := t\<rparr>"

definition HasMtime :: "EntryAttributes \<Rightarrow> bool" where
  "HasMtime a = (\<not> IsZero (mtime a))"

definition Mtime :: "EntryAttributes \<Rightarrow> Time" where
  "Mtime a = mtime a"

definition SetMtime :: "EntryAttributes \<Rightarrow> Time \<Rightarrow> EntryAttributes" where
  "SetMtime a t = a\<lparr>mtime := t\<rparr>"

definition HasCtime :: "EntryAttributes \<Rightarrow> bool" where
  "HasCtime a = (\<not> IsZero (ctime a))"

definition Ctime :: "EntryAttributes \<Rightarrow> Time" where
  "Ctime a = ctime a"

definition SetCtime :: "EntryAttributes \<Rightarrow> Time \<Rightarrow> EntryAttributes" where
  "SetCtime a t = a\<lparr>ctime := t\<rparr>"

definition HasMode :: "EntryAttributes \<Rightarrow> bool" where
  "HasMode a = hasMode a"

definition Mode :: "EntryAttributes \<Rightarrow> 32 word" where
  "Mode a = mode a"

definition SetMode :: "EntryAttributes \<Rightarrow> 32 word \<Rightarrow> EntryAttributes" where
  "SetMode a m = a\<lparr>mode := m, hasMode := True\<rparr>"

definition HasSize :: "EntryAttributes \<Rightarrow> bool" where
  "HasSize a = hasSize a"

definition Size :: "EntryAttributes \<Rightarrow> 64 word" where
  "Size a = size' a"

definition SetSize :: "EntryAttributes \<Rightarrow> 64 word \<Rightarrow> EntryAttributes" where
  "SetSize a n = a\<lparr>size' := n, hasSize := True\<rparr>"

text \<open>\<^verbatim>\<open>a.meta = ToJSONObject(obj); return a\<close>: the receiver changes only if the call returns.\<close>

definition SetMeta :: "EntryAttributes \<Rightarrow> arg \<Rightarrow> EntryAttributes outcome" where
  "SetMeta a obj =
     (case ToJSONObject obj of
        Return m \<Rightarrow> Return (a\<lparr>meta := m\<rparr>)
      | Panic err \<Rightarrow> Panic err
      | Fatal err \<Rightarrow> Fatal err)"

subsection \<open>\<^verbatim>\<open>ToMap\<close> and \<^verbatim>\<open>Meta\<close>\<close>

text \<open>
  \<^verbatim>\<open>ToMap\<close> calls \<^verbatim>\<open>Meta\<close> when \<^verbatim>\<open>includeMeta\<close> is set, and \<^verbatim>\<open>Meta\<close> calls
  \<^verbatim>\<open>ToMap(false)\<close> when no meta is stored.
\<close>

function ToMap :: "EntryAttributes \<Rightarrow> bool \<Rightarrow> (string \<times> gval) list"
  and Meta :: "EntryAttributes \<Rightarrow> (string \<times> gval) list" where
  "ToMap a includeMeta =
     (let mp = [];
          mp = (if HasAtime a then AList.update ''atime'' (VTime (Atime a)) mp else mp);
          mp = (if HasMtime a then AList.update ''mtime'' (VTime (Mtime a)) mp else mp);
          mp = (if HasCtime a then AList.update ''ctime'' (VTime (Ctime a)) mp else mp);
          mp = (if HasMode a
                then AList.update ''mode'' (VString (FileMode_String (Mode a))) mp else mp);
          mp = (if HasSize a then AList.update ''size'' (VUint64 (Size a)) mp else mp);
          mp = (if includeMeta then AList.update ''meta'' (VObject (Meta a)) mp else mp)
      in mp)"
| "Meta a = (case meta a of None \<Rightarrow> ToMap a False | Some m \<Rightarrow> m)"
  by pat_completeness auto
termination
  by (relation "measure (\<lambda>x. case x of Inl (a, b) \<Rightarrow> if b then 2 else 0 | Inr a \<Rightarrow> 1)") auto

subsection \<open>\<^verbatim>\<open>MarshalJSON\<close> and \<^verbatim>\<open>UnmarshalJSON\<close>\<close>

definition MarshalJSON :: "EntryAttributes \<Rightarrow> error + bytes" where
  "MarshalJSON a =
     (let m = ToMap a True;
          m = (if HasMode a then AList.update ''mode'' (VFileMode (Mode a)) m else m)
      in case json_Marshal (VObject m) of Inl err \<Rightarrow> Inl err | Inr j \<Rightarrow> Inr (Text j))"

definition attrMungeError :: "string \<Rightarrow> error \<Rightarrow> error" where
  "attrMungeError name err = AttrMunge name err"

text \<open>
  The six blocks of \<^verbatim>\<open>UnmarshalJSON\<close>, one per key. Each takes the decoded map and the
  receiver as it stands, and gives the receiver afterwards with the error the block
  returns (\<open>None\<close> when the function goes on). \<open>toTime\<close> and \<open>toSize\<close> stand for
  \<^verbatim>\<open>munge.ToTime\<close> and \<^verbatim>\<open>munge.ToSize\<close>.
\<close>

definition unmarshal_atime ::
  "(gval \<Rightarrow> error + Time) \<Rightarrow> (string \<times> gval) list option \<Rightarrow> EntryAttributes
     \<Rightarrow> EntryAttributes \<times> error option" where
  "unmarshal_atime toTime mp a =
     (case index mp ''atime'' of
        None \<Rightarrow> (a, None)
      | Some atime' \<Rightarrow>
          (case toTime atime' of
             Inl err \<Rightarrow> (a, Some (attrMungeError ''atime'' err))
           | Inr t \<Rightarrow> (SetAtime a t, None)))"

definition unmarshal_mtime ::
  "(gval \<Rightarrow> error + Time) \<Rightarrow> (string \<times> gval) list option \<Rightarrow> EntryAttributes
     \<Rightarrow> EntryAttributes \<times> error option" where
  "unmarshal_mtime toTime mp a =
     (case index mp ''mtime'' of
        None \<Rightarrow> (a, None)
      | Some mtime' \<Rightarrow>
          (case toTime mtime' of
             Inl err \<Rightarrow> (a, Some (attrMungeError ''mtime'' err))
           | Inr t \<Rightarrow> (SetMtime a t, None)))"

definition unmarshal_ctime ::
  "(gval \<Rightarrow> error + Time) \<Rightarrow> (string \<times> gval) list option \<Rightarrow> EntryAttributes
     \<Rightarrow> EntryAttributes \<times> error option" where
  "unmarshal_ctime toTime mp a =
     (case index mp ''ctime'' of
        None \<Rightarrow> (a, None)
      | Some ctime' \<Rightarrow>
          (case toTime ctime' of
             Inl err \<Rightarrow> (a, Some (attrMungeError ''ctime'' err))
           | Inr t \<Rightarrow> (SetCtime a t, None)))"

definition unmarshal_mode ::
  "(string \<times> gval) list option \<Rightarrow> EntryAttributes \<Rightarrow> EntryAttributes \<times> error option" where
  "unmarshal_mode mp a =
     (case index mp ''mode'' of
        None \<Rightarrow> (a, None)
      | Some mode' \<Rightarrow>
          (case mode' of
             VFloat64 raw \<Rightarrow> (SetMode a (FileMode_of_float64 raw), None)
           | _ \<Rightarrow> (a, Some (attrMungeError ''mode'' (ModeUnexpectedType mode')))))"

definition unmarshal_size ::
  "(gval \<Rightarrow> error + 64 word) \<Rightarrow> (string \<times> gval) list option \<Rightarrow> EntryAttributes
     \<Rightarrow> EntryAttributes \<times> error option" where
  "unmarshal_size toSize mp a =
     (case index mp ''size'' of
        None \<Rightarrow> (a, None)
      | Some size'' \<Rightarrow>
          (case toSize size'' of
             Inl err \<Rightarrow> (a, Some (attrMungeError ''size'' err))
           | Inr sz \<Rightarrow> (SetSize a sz, None)))"

definition unmarshal_meta ::
  "(string \<times> gval) list option \<Rightarrow> EntryAttributes
     \<Rightarrow> (EntryAttributes \<times> error option) outcome" where
  "unmarshal_meta mp a =
     (case index mp ''meta'' of
        None \<Rightarrow> Return (a, None)
      | Some rawMeta \<Rightarrow>
          (case rawMeta of
             VObject meta' \<Rightarrow>
               (case SetMeta a (Val (VObject meta')) of
                  Return a' \<Rightarrow> Return (a', None)
                | Panic err \<Rightarrow> Panic err
                | Fatal err \<Rightarrow> Fatal err)
           | _ \<Rightarrow> Return (a, Some MetaNotJSONObject)))"

text \<open>
  \<^verbatim>\<open>func (a *EntryAttributes) UnmarshalJSON(data []byte) error\<close>: the receiver after the
  call and the error returned (\<open>None\<close> for \<^verbatim>\<open>nil\<close>). The receiver is a pointer, so what
  a block has stored stays stored when a later block returns an error.
\<close>

definition UnmarshalJSON ::
  "(gval \<Rightarrow> error + Time) \<Rightarrow> (gval \<Rightarrow> error + 64 word) \<Rightarrow> EntryAttributes \<Rightarrow> bytes
     \<Rightarrow> (EntryAttributes \<times> error option) outcome" where
  "UnmarshalJSON toTime toSize a data =
     (case json_Unmarshal_map data of
        Inl err \<Rightarrow> Return (a, Some NonJSONObject)
      | Inr mp \<Rightarrow>
     (case unmarshal_atime toTime mp a of
        (a, Some err) \<Rightarrow> Return (a, Some err)
      | (a, None) \<Rightarrow>
     (case unmarshal_mtime toTime mp a of
        (a, Some err) \<Rightarrow> Return (a, Some err)
      | (a, None) \<Rightarrow>
     (case unmarshal_ctime toTime mp a of
        (a, Some err) \<Rightarrow> Return (a, Some err)
      | (a, None) \<Rightarrow>
     (case unmarshal_mode mp a of
        (a, Some err) \<Rightarrow> Return (a, Some err)
      | (a, None) \<Rightarrow>
     (case unmarshal_size toSize mp a of
        (a, Some err) \<Rightarrow> Return (a, Some err)
      | (a, None) \<Rightarrow> unmarshal_meta mp a))))))"

text \<open>
  \<^verbatim>\<open>Decode(Encode(r))\<close>: \<^verbatim>\<open>MarshalJSON\<close> of \<open>r\<close>, and \<^verbatim>\<open>UnmarshalJSON\<close> of the bytes into a
  fresh record. An error of the encoder is returned as it is.
\<close>

definition roundtrip ::
  "(gval \<Rightarrow> error + Time) \<Rightarrow> (gval \<Rightarrow> error + 64 word) \<Rightarrow> EntryAttributes
     \<Rightarrow> (EntryAttributes \<times> error option) outcome" where
  "roundtrip toTime toSize r =
     (case MarshalJSON r of
        Inl err \<Rightarrow> Return (emptyAttributes, Some err)
      | Inr data \<Rightarrow> UnmarshalJSON toTime toSize emptyAttributes data)"

subsection \<open>Building a record with the setters\<close>

text \<open>
  The fields are not exported, so a plugin starts from \<^verbatim>\<open>plugin.EntryAttributes{}\<close> and
  calls setters, \<^verbatim>\<open>attr.SetCtime(ctime).SetMtime(mtime).SetMeta(meta)\<close>. A chain of calls
  stops at the first one that does not return.
\<close>

datatype call =
    CallSetAtime Time
  | CallSetMtime Time
  | CallSetCtime Time
  | CallSetMode "32 word"
  | CallSetSize "64 word"
  | CallSetMeta arg

fun apply_call :: "EntryAttributes \<Rightarrow> call \<Rightarrow> EntryAttributes outcome" where
  "apply_call a (CallSetAtime t) = Return (SetAtime a t)"
| "apply_call a (CallSetMtime t) = Return (SetMtime a t)"
| "apply_call a (CallSetCtime t) = Return (SetCtime a t)"
| "apply_call a (CallSetMode m) = Return (SetMode a m)"
| "apply_call a (CallSetSize n) = Return (SetSize a n)"
| "apply_call a (CallSetMeta obj) = SetMeta a obj"

fun chain :: "EntryAttributes \<Rightarrow> call list \<Rightarrow> EntryAttributes outcome" where
  "chain a [] = Return a"
| "chain a (c # cs) =
     (case apply_call a c of
        Return a' \<Rightarrow> chain a' cs
      | Panic err \<Rightarrow> Panic err
      | Fatal err \<Rightarrow> Fatal err)"

subsection \<open>JSON texts whose numbers fit \<^verbatim>\<open>float64\<close>\<close>

fun fits_float64 :: "json \<Rightarrow> bool"
  and elems_fit :: "json list \<Rightarrow> bool"
  and fields_fit :: "(string \<times> json) list \<Rightarrow> bool" where
  "fits_float64 JNull = True"
| "fits_float64 (JBool b) = True"
| "fits_float64 (JNumber q) = (float64_of q \<noteq> None)"
| "fits_float64 (JString s) = True"
| "fits_float64 (JArray js) = elems_fit js"
| "fits_float64 (JObject kjs) = fields_fit kjs"
| "elems_fit [] = True"
| "elems_fit (j # js) = (fits_float64 j \<and> elems_fit js)"
| "fields_fit [] = True"
| "fields_fit ((k, j) # kjs) = (fits_float64 j \<and> fields_fit kjs)"

section \<open>The coercion service\<close>

text \<open>
  The inverse of \<^const>\<open>civil_from_days\<close>: the day count of a civil date.
\<close>

definition days_from_civil :: "int \<Rightarrow> int \<Rightarrow> int \<Rightarrow> int" where
  "days_from_civil y m d =
     (let y' = (if m \<le> 2 then y - 1 else y);
          era = y' div 400;
          yoe = y' mod 400;
          doy = (153 * (if 2 < m then m - 3 else m + 9) + 2) div 5 + d - 1;
          doe = yoe * 365 + yoe div 4 - yoe div 100 + doy
      in era * 146097 + doe - 306)"

definition digit_of :: "char \<Rightarrow> int option" where
  "digit_of c = map_of (zip ''0123456789'' [0, 1, 2, 3, 4, 5, 6, 7, 8, 9]) c"

text \<open>The number a non-empty string of decimal digits spells.\<close>

definition number_of :: "string \<Rightarrow> int option" where
  "number_of s =
     (if s = [] then None
      else foldl (\<lambda>acc c. case (acc, digit_of c) of
                              (Some n, Some d) \<Rightarrow> Some (10 * n + d)
                            | _ \<Rightarrow> None) (Some 0) s)"

text \<open>
  RFC 3339 text in UTC, \<^verbatim>\<open>YYYY-MM-DDTHH:MM:SS\<close>, an optional fraction of one to nine
  digits, \<^verbatim>\<open>Z\<close>.
\<close>

definition parseRFC3339 :: "string \<Rightarrow> Time option" where
  "parseRFC3339 s =
     (let rest = drop 19 s;
          frac = (if rest = ''Z'' then Some 0
                  else if 3 \<le> length rest \<and> length rest \<le> 11 \<and> hd rest = CHR ''.''
                          \<and> last rest = CHR ''Z''
                  then number_of (butlast (tl rest) @ replicate (11 - length rest) CHR ''0'')
                  else None)
      in case (number_of (take 4 s), number_of (take 2 (drop 5 s)),
               number_of (take 2 (drop 8 s)), number_of (take 2 (drop 11 s)),
               number_of (take 2 (drop 14 s)), number_of (take 2 (drop 17 s)), frac) of
           (Some y, Some m, Some d, Some h, Some mi, Some se, Some ns) \<Rightarrow>
             if take 1 (drop 4 s) = ''-'' \<and> take 1 (drop 7 s) = ''-''
                \<and> take 1 (drop 10 s) = ''T'' \<and> take 1 (drop 13 s) = '':''
                \<and> take 1 (drop 16 s) = '':''
                \<and> civil_from_days (days_from_civil y m d) = (y, m, d)
                \<and> h < 24 \<and> mi < 60 \<and> se < 60
             then Some \<lparr>sec = days_from_civil y m d * 86400 + h * 3600 + mi * 60 + se,
                        nsec = ns\<rparr>
             else None
         | _ \<Rightarrow> None)"

text \<open>
  Modelled from the spec: \<^verbatim>\<open>munge.ToTime\<close>, whose package is not among the sources. The
  spec, section 6: ``\<^verbatim>\<open>ToTime(value: decoded-JSON-value) -> (moment, error)\<close>: must accept
  at least numeric epoch and string-encoded representations''; section 2: it ``fails
  with a typed error on unrecognized representations''. Here a number is the seconds
  since the Unix epoch (January 1, 1970), a string is RFC 3339 text, a moment is itself,
  and every other value is not recognized.
\<close>

definition munge_ToTime :: "gval \<Rightarrow> error + Time" where
  "munge_ToTime v =
     (case v of
        VTime t \<Rightarrow> Inr t
      | VFloat64 x \<Rightarrow>
          Inr \<lparr>sec = 62135596800 + (if 0 \<le> x then \<lfloor>x\<rfloor> else \<lceil>x\<rceil>), nsec = 0\<rparr>
      | VString s \<Rightarrow>
          (case parseRFC3339 s of None \<Rightarrow> Inl (CoercionError v) | Some t \<Rightarrow> Inr t)
      | _ \<Rightarrow> Inl (CoercionError v))"

text \<open>
  Modelled from the spec: \<^verbatim>\<open>munge.ToSize\<close>, whose package is not among the sources. The
  spec, section 6: ``\<^verbatim>\<open>ToSize(value: decoded-JSON-value) -> (unsigned-integer, error)\<close>:
  must accept numeric and string-encoded representations''. Here a number in the range
  of \<^verbatim>\<open>uint64\<close> is its whole part, a string of decimal digits is the number it spells,
  and every other value is not recognized.
\<close>

definition munge_ToSize :: "gval \<Rightarrow> error + 64 word" where
  "munge_ToSize v =
     (case v of
        VUint64 n \<Rightarrow> Inr n
      | VFloat64 x \<Rightarrow>
          if 0 \<le> x \<and> x < 2 ^ 64 then Inr (word_of_int \<lfloor>x\<rfloor>) else Inl (CoercionError v)
      | VString s \<Rightarrow>
          (case number_of s of
             None \<Rightarrow> Inl (CoercionError v)
           | Some n \<Rightarrow> if n < 2 ^ 64 then Inr (word_of_int n) else Inl (CoercionError v))
      | _ \<Rightarrow> Inl (CoercionError v))"

section \<open>Hypotheses and examples of the theorems\<close>

text \<open>
  The first of the keys \<open>ks\<close> of a decoded map that is present and does not coerce to a
  moment in time, with the error of the coercion service; \<open>None\<close> when every key of
  \<open>ks\<close> that is present coerces.
\<close>

fun time_failure ::
  "(gval \<Rightarrow> error + Time) \<Rightarrow> (string \<times> gval) list option \<Rightarrow> string list
     \<Rightarrow> (string \<times> error) option" where
  "time_failure toTime mp [] = None"
| "time_failure toTime mp (k # ks) =
     (case index mp k of
        None \<Rightarrow> time_failure toTime mp ks
      | Some v \<Rightarrow> (case toTime v of
                    Inl err \<Rightarrow> Some (k, err)
                  | Inr t \<Rightarrow> time_failure toTime mp ks))"

text \<open>The time keys in the order in which \<^verbatim>\<open>UnmarshalJSON\<close> reads them.\<close>

definition first_time_failure ::
  "(gval \<Rightarrow> error + Time) \<Rightarrow> (string \<times> gval) list option \<Rightarrow> (string \<times> error) option" where
  "first_time_failure toTime mp = time_failure toTime mp [''atime'', ''mtime'', ''ctime'']"

text \<open>
  What a block that returned no error has done with its attribute, the old value
  before the new one: the key is absent and the attribute is as it was, or the key is
  present and the attribute is its coerced value (with the presence flag set, for mode
  and size). The value of the mode is stated for a number from 0 up to \<open>2 ^ 32\<close>.
\<close>

definition time_stored ::
  "(gval \<Rightarrow> error + Time) \<Rightarrow> (string \<times> gval) list option \<Rightarrow> string \<Rightarrow> Time \<Rightarrow> Time
     \<Rightarrow> bool" where
  "time_stored toTime mp k old new =
     (case index mp k of
        None \<Rightarrow> new = old
      | Some v \<Rightarrow> toTime v = Inr new)"

definition mode_stored ::
  "(string \<times> gval) list option \<Rightarrow> EntryAttributes \<Rightarrow> EntryAttributes \<Rightarrow> bool" where
  "mode_stored mp a a' =
     (case index mp ''mode'' of
        None \<Rightarrow> hasMode a' = hasMode a \<and> mode a' = mode a
      | Some v \<Rightarrow>
          (case v of
             VFloat64 raw \<Rightarrow>
               hasMode a'
               \<and> (0 \<le> raw \<and> raw < 2 ^ 32 \<longrightarrow> mode a' = word_of_int \<lfloor>raw\<rfloor>)
           | _ \<Rightarrow> False))"

definition size_stored ::
  "(gval \<Rightarrow> error + 64 word) \<Rightarrow> (string \<times> gval) list option \<Rightarrow> EntryAttributes
     \<Rightarrow> EntryAttributes \<Rightarrow> bool" where
  "size_stored toSize mp a a' =
     (case index mp ''size'' of
        None \<Rightarrow> hasSize a' = hasSize a \<and> size' a' = size' a
      | Some v \<Rightarrow> hasSize a' \<and> toSize v = Inr (size' a'))"

text \<open>
  An example record: a file of \<open>n\<close> bytes with mode \<^verbatim>\<open>0644\<close>, read on June 1, 2019 at
  12:00:00.12 UTC, modified at 12:00:00 and created at 00:00:00; no meta stored.
\<close>

definition exampleFile :: "64 word \<Rightarrow> EntryAttributes" where
  "exampleFile n =
     \<lparr>atime = \<lparr>sec = 63694987200, nsec = 120000000\<rparr>, mtime = \<lparr>sec = 63694987200, nsec = 0\<rparr>,
      ctime = \<lparr>sec = 63694944000, nsec = 0\<rparr>, mode = 420, hasMode = True,
      size' = n, hasSize = True, meta = None\<rparr>"

section \<open>Presence of the attributes\<close>

subsection \<open>What a chain of setter calls leaves alone\<close>

lemma SetMeta_Return:
  "SetMeta a obj = Return a' \<Longrightarrow> \<exists>m. ToJSONObject obj = Return m \<and> a' = a\<lparr>meta := m\<rparr>"
  by (auto simp: SetMeta_def split: outcome.splits)

lemma apply_call_frame:
  assumes "apply_call a c = Return a'"
  shows "(\<forall>t. c \<noteq> CallSetAtime t) \<longrightarrow> atime a' = atime a"
    and "(\<forall>t. c \<noteq> CallSetMtime t) \<longrightarrow> mtime a' = mtime a"
    and "(\<forall>t. c \<noteq> CallSetCtime t) \<longrightarrow> ctime a' = ctime a"
    and "(\<forall>m. c \<noteq> CallSetMode m) \<longrightarrow> hasMode a' = hasMode a \<and> mode a' = mode a"
    and "(\<forall>n. c \<noteq> CallSetSize n) \<longrightarrow> hasSize a' = hasSize a \<and> size' a' = size' a"
    and "(\<forall>obj. c \<noteq> CallSetMeta obj) \<longrightarrow> meta a' = meta a"
  using assms
  by (cases c; auto simp: SetAtime_def SetMtime_def SetCtime_def SetMode_def SetSize_def
        dest: SetMeta_Return)+

lemma chain_Cons_Return:
  assumes "chain a (c # cs) = Return r"
  obtains a' where "apply_call a c = Return a'" and "chain a' cs = Return r"
  using assms by (auto split: outcome.splits)

lemma chain_frame:
  assumes "chain a cs = Return r"
  shows "(\<forall>t. CallSetAtime t \<notin> set cs) \<longrightarrow> atime r = atime a"
    and "(\<forall>t. CallSetMtime t \<notin> set cs) \<longrightarrow> mtime r = mtime a"
    and "(\<forall>t. CallSetCtime t \<notin> set cs) \<longrightarrow> ctime r = ctime a"
    and "(\<forall>m. CallSetMode m \<notin> set cs) \<longrightarrow> hasMode r = hasMode a \<and> mode r = mode a"
    and "(\<forall>n. CallSetSize n \<notin> set cs) \<longrightarrow> hasSize r = hasSize a \<and> size' r = size' a"
    and "(\<forall>obj. CallSetMeta obj \<notin> set cs) \<longrightarrow> meta r = meta a"
  using assms
proof (induction cs arbitrary: a)
  case Nil
  {
    case 1 then show ?case by simp
  next
    case 2 then show ?case by simp
  next
    case 3 then show ?case by simp
  next
    case 4 then show ?case by simp
  next
    case 5 then show ?case by simp
  next
    case 6 then show ?case by simp
  }
next
  case (Cons c cs)
  {
    case 1
    then obtain a' where s: "apply_call a c = Return a'" and r: "chain a' cs = Return r"
      by (rule chain_Cons_Return)
    show ?case using Cons.IH(1) [OF r] apply_call_frame(1) [OF s] by auto
  next
    case 2
    then obtain a' where s: "apply_call a c = Return a'" and r: "chain a' cs = Return r"
      by (rule chain_Cons_Return)
    show ?case using Cons.IH(2) [OF r] apply_call_frame(2) [OF s] by auto
  next
    case 3
    then obtain a' where s: "apply_call a c = Return a'" and r: "chain a' cs = Return r"
      by (rule chain_Cons_Return)
    show ?case using Cons.IH(3) [OF r] apply_call_frame(3) [OF s] by auto
  next
    case 4
    then obtain a' where s: "apply_call a c = Return a'" and r: "chain a' cs = Return r"
      by (rule chain_Cons_Return)
    show ?case using Cons.IH(4) [OF r] apply_call_frame(4) [OF s] by auto
  next
    case 5
    then obtain a' where s: "apply_call a c = Return a'" and r: "chain a' cs = Return r"
      by (rule chain_Cons_Return)
    show ?case using Cons.IH(5) [OF r] apply_call_frame(5) [OF s] by auto
  next
    case 6
    then obtain a' where s: "apply_call a c = Return a'" and r: "chain a' cs = Return r"
      by (rule chain_Cons_Return)
    show ?case using Cons.IH(6) [OF r] apply_call_frame(6) [OF s] by auto
  }
qed

subsection \<open>Size: a flag of its own\<close>

text \<open>
  Claim C5. After \<^verbatim>\<open>SetSize(0)\<close> on any record \<^verbatim>\<open>HasSize()\<close> is true; a record built
  from the empty one by setter calls, none of them \<^verbatim>\<open>SetSize\<close>, has \<^verbatim>\<open>HasSize()\<close> false.
  So a size of zero that is present is told apart from a size that is absent.
\<close>

theorem SetSize_zero_present_never_set_absent:
  "HasSize (SetSize a 0) \<and>
   (chain emptyAttributes cs = Return r \<longrightarrow> (\<forall>n. CallSetSize n \<notin> set cs)
      \<longrightarrow> \<not> HasSize r)"
  using chain_frame(5) [of emptyAttributes cs r]
  by (simp add: HasSize_def SetSize_def emptyAttributes_def)

theorem SetSize_zero_present_never_set_absent_witness:
  "HasSize (SetSize emptyAttributes 0)
   \<and> chain emptyAttributes [CallSetMode 420, CallSetAtime \<lparr>sec = 63694987200, nsec = 0\<rparr>]
       = Return (SetAtime (SetMode emptyAttributes 420) \<lparr>sec = 63694987200, nsec = 0\<rparr>)
   \<and> \<not> HasSize (SetAtime (SetMode emptyAttributes 420) \<lparr>sec = 63694987200, nsec = 0\<rparr>)"
  using SetSize_zero_present_never_set_absent
    [of emptyAttributes "[CallSetMode 420, CallSetAtime \<lparr>sec = 63694987200, nsec = 0\<rparr>]"
      "SetAtime (SetMode emptyAttributes 420) \<lparr>sec = 63694987200, nsec = 0\<rparr>"]
  by simp

subsection \<open>Times: the zero moment is absence\<close>

text \<open>
  Claim C6. \<^verbatim>\<open>SetAtime\<close> with the zero moment and no call of \<^verbatim>\<open>SetAtime\<close> at all cannot be
  told apart: \<^verbatim>\<open>HasAtime()\<close> is false after \<^verbatim>\<open>SetAtime(time.Time{})\<close> on any record, it is
  false for a record built from the empty one by setter calls other than \<^verbatim>\<open>SetAtime\<close>, and
  on such a record \<^verbatim>\<open>SetAtime(time.Time{})\<close> changes nothing. The same holds for
  \<^verbatim>\<open>SetMtime\<close> with \<^verbatim>\<open>HasMtime\<close> and for \<^verbatim>\<open>SetCtime\<close> with \<^verbatim>\<open>HasCtime\<close>.
\<close>

theorem zero_moment_is_never_set:
  "\<not> HasAtime (SetAtime a zeroTime) \<and> \<not> HasMtime (SetMtime a zeroTime)
   \<and> \<not> HasCtime (SetCtime a zeroTime)
   \<and> (chain emptyAttributes cs = Return r \<longrightarrow>
        ((\<forall>t. CallSetAtime t \<notin> set cs) \<longrightarrow> \<not> HasAtime r \<and> SetAtime r zeroTime = r)
      \<and> ((\<forall>t. CallSetMtime t \<notin> set cs) \<longrightarrow> \<not> HasMtime r \<and> SetMtime r zeroTime = r)
      \<and> ((\<forall>t. CallSetCtime t \<notin> set cs) \<longrightarrow> \<not> HasCtime r \<and> SetCtime r zeroTime = r))"
  using chain_frame(1,2,3) [of emptyAttributes cs r]
  by (simp add: HasAtime_def HasMtime_def HasCtime_def SetAtime_def SetMtime_def SetCtime_def
      IsZero_def zeroTime_def emptyAttributes_def)

theorem zero_moment_is_never_set_witness:
  "\<not> HasAtime (SetAtime emptyAttributes zeroTime)
   \<and> chain emptyAttributes [CallSetSize 5] = Return (SetSize emptyAttributes 5)
   \<and> \<not> HasAtime (SetSize emptyAttributes 5)
   \<and> SetAtime (SetSize emptyAttributes 5) zeroTime = SetSize emptyAttributes 5
   \<and> \<not> HasMtime (SetSize emptyAttributes 5)
   \<and> \<not> HasCtime (SetSize emptyAttributes 5)"
  using zero_moment_is_never_set [of emptyAttributes "[CallSetSize 5]" "SetSize emptyAttributes 5"]
  by simp

section \<open>The map of the attributes\<close>

text \<open>
  Claim C3. For every record, \<^verbatim>\<open>ToMap(false)\<close> has no \<^verbatim>\<open>"meta"\<close> key; and for every record
  with at least one attribute present, \<^verbatim>\<open>ToMap(true)\<close> has a \<^verbatim>\<open>"meta"\<close> key (its value is
  \<^verbatim>\<open>Meta()\<close>), whether or not a meta was ever stored.
\<close>

theorem ToMap_meta_key:
  "''meta'' \<notin> dom (map_of (ToMap r False)) \<and>
   (HasAtime r \<or> HasMtime r \<or> HasCtime r \<or> HasMode r \<or> HasSize r
      \<longrightarrow> ''meta'' \<in> dom (map_of (ToMap r True))
          \<and> map_of (ToMap r True) ''meta'' = Some (VObject (Meta r)))"
proof -
  have "map_of (ToMap r False) ''meta'' = None"
    by (simp add: Let_def update_conv')
  moreover have "map_of (ToMap r True) ''meta'' = Some (VObject (Meta r))"
    by (simp add: Let_def update_conv' del: Meta.simps)
  ultimately show ?thesis
    by (simp add: domIff)
qed

theorem ToMap_meta_key_witness:
  "HasSize (SetSize emptyAttributes 0)
   \<and> meta (SetSize emptyAttributes 0) = None
   \<and> ''meta'' \<notin> dom (map_of (ToMap (SetSize emptyAttributes 0) False))
   \<and> ''meta'' \<in> dom (map_of (ToMap (SetSize emptyAttributes 0) True))"
  using ToMap_meta_key [of "SetSize emptyAttributes 0"]
  by (simp add: HasSize_def SetSize_def emptyAttributes_def)

text \<open>
  Claim C10. For a record with no attribute present and no meta stored (the empty
  record is one), \<^verbatim>\<open>ToMap(true)\<close> is the map with the one key \<^verbatim>\<open>"meta"\<close>, and its value is
  the empty object: the \<^verbatim>\<open>"meta"\<close> entry is there even when nothing else is.
\<close>

theorem ToMap_true_of_empty_record:
  "\<not> HasAtime r \<Longrightarrow> \<not> HasMtime r \<Longrightarrow> \<not> HasCtime r \<Longrightarrow> \<not> HasMode r \<Longrightarrow> \<not> HasSize r
     \<Longrightarrow> meta r = None \<Longrightarrow> ToMap r True = [(''meta'', VObject [])]"
  by simp

theorem ToMap_true_of_empty_record_witness:
  "\<not> HasAtime emptyAttributes \<and> \<not> HasMtime emptyAttributes \<and> \<not> HasCtime emptyAttributes
   \<and> \<not> HasMode emptyAttributes \<and> \<not> HasSize emptyAttributes \<and> meta emptyAttributes = None
   \<and> ToMap emptyAttributes True = [(''meta'', VObject [])]"
proof -
  have h: "\<not> HasAtime emptyAttributes" "\<not> HasMtime emptyAttributes"
    "\<not> HasCtime emptyAttributes" "\<not> HasMode emptyAttributes" "\<not> HasSize emptyAttributes"
    "meta emptyAttributes = None"
    by (simp_all add: HasAtime_def HasMtime_def HasCtime_def HasMode_def HasSize_def IsZero_def
        zeroTime_def emptyAttributes_def)
  from h ToMap_true_of_empty_record [OF h] show ?thesis
    by blast
qed

section \<open>Numbers through JSON\<close>

lemma round_half_even_of_int [simp]: "round_half_even (of_int m) = m"
  by (simp add: round_half_even_def)

lemma bitlen_one [simp]: "bitlen 1 = 1"
  by (simp add: bitlen_alt_def)

lemma ilog2_of_int_upper:
  assumes "0 < n" and "n < 2 ^ w"
  shows "ilog2 (of_int n) \<le> int w - 1"
proof -
  from assms(2) have "bitlen n \<le> int w"
    by (simp add: bitlen_le_iff_power)
  then show ?thesis
    by (simp add: ilog2_def Let_def)
qed

text \<open>Every whole number below \<open>2 ^ 53\<close> is a \<^verbatim>\<open>float64\<close>.\<close>

lemma float64_of_exact:
  assumes "0 \<le> n" and "n < 2 ^ 53"
  shows "float64_of (of_int n) = Some (of_int n)"
proof (cases "n = 0")
  case True
  then show ?thesis by (simp add: float64_of_def)
next
  case False
  with assms have pos: "0 < n" by simp
  define e where "e = max (- 1074) (ilog2 \<bar>rat_of_int n\<bar> - 52)"
  from pos have "\<bar>rat_of_int n\<bar> = of_int n" by simp
  with ilog2_of_int_upper [OF pos assms(2)] have "e \<le> 0"
    by (simp add: e_def)
  then obtain k where k: "e = - int k"
    by (metis minus_minus nat_0_le neg_0_le_iff_le)
  have p: "(2::rat) powi e = 1 / 2 ^ k"
    by (simp add: k power_int_minus_divide)
  have scaled: "rat_of_int n / 2 powi e = of_int (n * 2 ^ k)"
    by (simp add: p)
  have y: "of_int (round_half_even (rat_of_int n / 2 powi e)) * 2 powi e = rat_of_int n"
    unfolding scaled round_half_even_of_int by (simp add: p)
  from assms(2) have "rat_of_int n < 2 ^ 53"
    by (metis of_int_less_numeral_power_cancel_iff)
  also have "\<dots> \<le> (2::rat) ^ 1024"
    by (rule power_increasing) simp_all
  finally have small: "\<not> (2::rat) ^ 1024 \<le> \<bar>rat_of_int n\<bar>"
    using pos by simp
  from False have nz: "rat_of_int n \<noteq> 0" by simp
  show ?thesis
    unfolding float64_of_def Let_def e_def [symmetric] y
    using nz small by (simp only: if_False)
qed

lemma float64_of_uint32: "float64_of (of_int (uint (m :: 32 word))) = Some (of_int (uint m))"
proof (rule float64_of_exact)
  show "0 \<le> uint m" by simp
  have "uint m < 2 ^ 32" using uint_bounded [of m] by simp
  also have "\<dots> < (2::int) ^ 53" by simp
  finally show "uint m < 2 ^ 53" .
qed

lemma FileMode_of_float64_in_range:
  "0 \<le> raw \<Longrightarrow> raw < 2 ^ 32 \<Longrightarrow> FileMode_of_float64 raw = word_of_int \<lfloor>raw\<rfloor>"
  by (simp add: FileMode_of_float64_def)

lemma FileMode_of_float64_uint: "FileMode_of_float64 (of_int (uint (m :: 32 word))) = m"
proof -
  have "uint m < 2 ^ 32" using uint_bounded [of m] by simp
  then have lt: "rat_of_int (uint m) < 2 ^ 32" by (metis of_int_less_numeral_power_cancel_iff)
  have "(0::rat) \<le> rat_of_int (uint m)" by (simp only: of_int_0_le_iff uint_ge_0)
  then have "FileMode_of_float64 (rat_of_int (uint m)) = word_of_int \<lfloor>rat_of_int (uint m)\<rfloor>"
    using lt by (rule FileMode_of_float64_in_range)
  then show ?thesis by (simp only: floor_of_int word_of_int_uint)
qed

lemma ilog2_pow2: "ilog2 (2 ^ n) = int n"
proof -
  have q: "quotient_of ((2::rat) ^ n) = (2 ^ n, 1)"
    by (metis of_int_numeral of_int_power quotient_of_rat_of_int)
  have b: "bitlen (2 ^ n) = int n + 1"
    using bitlen_pow2 [of 1 n] by simp
  show ?thesis
    by (simp add: ilog2_def q b)
qed

text \<open>A power of two from \<open>2 ^ 1024\<close> on is out of the range of \<^verbatim>\<open>float64\<close>.\<close>

lemma float64_of_pow2_overflow:
  assumes "1024 \<le> n"
  shows "float64_of (2 ^ n) = None"
proof -
  define k where "k = n - 52"
  have n: "n = k + 52" using assms by (simp add: k_def)
  have e: "max (- 1074) (ilog2 \<bar>(2::rat) ^ n\<bar> - 52) = int k"
    by (simp add: ilog2_pow2 n)
  have scaled: "(2::rat) ^ n / 2 powi int k = of_int (2 ^ 52)"
    by (simp add: n power_add)
  have y: "of_int (round_half_even ((2::rat) ^ n / 2 powi int k)) * 2 powi int k = (2::rat) ^ n"
    unfolding scaled round_half_even_of_int by (simp add: n power_add)
  have "(2::rat) ^ 1024 \<le> 2 ^ n"
    by (rule power_increasing) (use assms in simp_all)
  moreover have "\<bar>(2::rat) ^ n\<bar> = 2 ^ n"
    by simp
  ultimately have big: "(2::rat) ^ 1024 \<le> \<bar>2 ^ n\<bar>"
    by (simp only:)
  have nz: "(2::rat) ^ n \<noteq> 0" by simp
  show ?thesis
    unfolding float64_of_def Let_def e y
    using nz big by (simp only: if_False if_True)
qed

section \<open>Decoding\<close>

subsection \<open>The blocks of \<^verbatim>\<open>UnmarshalJSON\<close>\<close>

lemma SetMeta_object: "SetMeta a (Val (VObject m)) = Return (a\<lparr>meta := Some m\<rparr>)"
  by (simp add: SetMeta_def ToJSONObject_def)

lemma index_None [simp]: "index None k = None"
  by (simp add: index_def)

lemma unmarshal_atime_cases:
  assumes "unmarshal_atime toTime mp a = (a', e)"
  shows "(e = None \<and> index mp ''atime'' = None \<and> a' = a)
       \<or> (\<exists>v t. e = None \<and> index mp ''atime'' = Some v \<and> toTime v = Inr t
                \<and> a' = SetAtime a t)
       \<or> (\<exists>v x. e = Some (AttrMunge ''atime'' x) \<and> index mp ''atime'' = Some v
                \<and> toTime v = Inl x \<and> a' = a)"
  using assms
  by (auto simp: unmarshal_atime_def attrMungeError_def split: option.splits sum.splits)

lemma unmarshal_mtime_cases:
  assumes "unmarshal_mtime toTime mp a = (a', e)"
  shows "(e = None \<and> index mp ''mtime'' = None \<and> a' = a)
       \<or> (\<exists>v t. e = None \<and> index mp ''mtime'' = Some v \<and> toTime v = Inr t
                \<and> a' = SetMtime a t)
       \<or> (\<exists>v x. e = Some (AttrMunge ''mtime'' x) \<and> index mp ''mtime'' = Some v
                \<and> toTime v = Inl x \<and> a' = a)"
  using assms
  by (auto simp: unmarshal_mtime_def attrMungeError_def split: option.splits sum.splits)

lemma unmarshal_ctime_cases:
  assumes "unmarshal_ctime toTime mp a = (a', e)"
  shows "(e = None \<and> index mp ''ctime'' = None \<and> a' = a)
       \<or> (\<exists>v t. e = None \<and> index mp ''ctime'' = Some v \<and> toTime v = Inr t
                \<and> a' = SetCtime a t)
       \<or> (\<exists>v x. e = Some (AttrMunge ''ctime'' x) \<and> index mp ''ctime'' = Some v
                \<and> toTime v = Inl x \<and> a' = a)"
  using assms
  by (auto simp: unmarshal_ctime_def attrMungeError_def split: option.splits sum.splits)

lemma unmarshal_mode_cases:
  assumes "unmarshal_mode mp a = (a', e)"
  shows "(e = None \<and> index mp ''mode'' = None \<and> a' = a)
       \<or> (\<exists>raw. e = None \<and> index mp ''mode'' = Some (VFloat64 raw)
                \<and> a' = SetMode a (FileMode_of_float64 raw))
       \<or> (\<exists>v. e = Some (AttrMunge ''mode'' (ModeUnexpectedType v)) \<and> index mp ''mode'' = Some v
                \<and> (\<forall>raw. v \<noteq> VFloat64 raw) \<and> a' = a)"
  using assms
  by (auto simp: unmarshal_mode_def attrMungeError_def split: option.splits gval.splits)

lemma unmarshal_size_cases:
  assumes "unmarshal_size toSize mp a = (a', e)"
  shows "(e = None \<and> index mp ''size'' = None \<and> a' = a)
       \<or> (\<exists>v n. e = None \<and> index mp ''size'' = Some v \<and> toSize v = Inr n
                \<and> a' = SetSize a n)
       \<or> (\<exists>v x. e = Some (AttrMunge ''size'' x) \<and> index mp ''size'' = Some v
                \<and> toSize v = Inl x \<and> a' = a)"
  using assms
  by (auto simp: unmarshal_size_def attrMungeError_def split: option.splits sum.splits)

lemma unmarshal_meta_cases:
  "(unmarshal_meta mp a = Return (a, None) \<and> index mp ''meta'' = None)
   \<or> (\<exists>m. unmarshal_meta mp a = Return (a\<lparr>meta := Some m\<rparr>, None)
           \<and> index mp ''meta'' = Some (VObject m))
   \<or> (\<exists>v. unmarshal_meta mp a = Return (a, Some MetaNotJSONObject)
           \<and> index mp ''meta'' = Some v \<and> (\<forall>m. v \<noteq> VObject m))"
  by (auto simp: unmarshal_meta_def SetMeta_object split: option.splits gval.splits)

text \<open>What a block leaves alone, and the error it can return.\<close>

lemma unmarshal_atime_frame:
  assumes "unmarshal_atime toTime mp a = (a', e)"
  shows "mtime a' = mtime a \<and> ctime a' = ctime a \<and> mode a' = mode a \<and> hasMode a' = hasMode a
         \<and> size' a' = size' a \<and> hasSize a' = hasSize a \<and> meta a' = meta a"
    and "e \<noteq> None \<longrightarrow> a' = a \<and> (\<exists>x. e = Some (AttrMunge ''atime'' x))"
  using unmarshal_atime_cases [OF assms] by (auto simp: SetAtime_def)

lemma unmarshal_mtime_frame:
  assumes "unmarshal_mtime toTime mp a = (a', e)"
  shows "atime a' = atime a \<and> ctime a' = ctime a \<and> mode a' = mode a \<and> hasMode a' = hasMode a
         \<and> size' a' = size' a \<and> hasSize a' = hasSize a \<and> meta a' = meta a"
    and "e \<noteq> None \<longrightarrow> a' = a \<and> (\<exists>x. e = Some (AttrMunge ''mtime'' x))"
  using unmarshal_mtime_cases [OF assms] by (auto simp: SetMtime_def)

lemma unmarshal_ctime_frame:
  assumes "unmarshal_ctime toTime mp a = (a', e)"
  shows "atime a' = atime a \<and> mtime a' = mtime a \<and> mode a' = mode a \<and> hasMode a' = hasMode a
         \<and> size' a' = size' a \<and> hasSize a' = hasSize a \<and> meta a' = meta a"
    and "e \<noteq> None \<longrightarrow> a' = a \<and> (\<exists>x. e = Some (AttrMunge ''ctime'' x))"
  using unmarshal_ctime_cases [OF assms] by (auto simp: SetCtime_def)

lemma unmarshal_mode_frame:
  assumes "unmarshal_mode mp a = (a', e)"
  shows "atime a' = atime a \<and> mtime a' = mtime a \<and> ctime a' = ctime a
         \<and> size' a' = size' a \<and> hasSize a' = hasSize a \<and> meta a' = meta a"
    and "e \<noteq> None \<longrightarrow> a' = a \<and> (\<exists>x. e = Some (AttrMunge ''mode'' x))"
  using unmarshal_mode_cases [OF assms] by (auto simp: SetMode_def)

lemma unmarshal_size_frame:
  assumes "unmarshal_size toSize mp a = (a', e)"
  shows "atime a' = atime a \<and> mtime a' = mtime a \<and> ctime a' = ctime a
         \<and> mode a' = mode a \<and> hasMode a' = hasMode a \<and> meta a' = meta a"
    and "e \<noteq> None \<longrightarrow> a' = a \<and> (\<exists>x. e = Some (AttrMunge ''size'' x))"
  using unmarshal_size_cases [OF assms] by (auto simp: SetSize_def)

lemma unmarshal_meta_frame:
  obtains a' e where "unmarshal_meta mp a = Return (a', e)"
    and "atime a' = atime a \<and> mtime a' = mtime a \<and> ctime a' = ctime a \<and> mode a' = mode a
         \<and> hasMode a' = hasMode a \<and> size' a' = size' a \<and> hasSize a' = hasSize a"
    and "e \<noteq> None \<longrightarrow> a' = a \<and> e = Some MetaNotJSONObject"
  using unmarshal_meta_cases [of mp a] by (elim disjE exE conjE) auto

text \<open>
  \<^verbatim>\<open>UnmarshalJSON\<close> on bytes that decode to a map: the six blocks in their order, and the
  first error among them.
\<close>

lemma UnmarshalJSON_blocks:
  assumes "json_Unmarshal_map data = Inr mp"
  obtains a1 e1 a2 e2 a3 e3 a4 e4 a5 e5 a6 e6 where
    "unmarshal_atime toTime mp a = (a1, e1)"
    "unmarshal_mtime toTime mp a1 = (a2, e2)"
    "unmarshal_ctime toTime mp a2 = (a3, e3)"
    "unmarshal_mode mp a3 = (a4, e4)"
    "unmarshal_size toSize mp a4 = (a5, e5)"
    "unmarshal_meta mp a5 = Return (a6, e6)"
    "UnmarshalJSON toTime toSize a data =
       Return (if e1 \<noteq> None then (a1, e1) else if e2 \<noteq> None then (a2, e2)
               else if e3 \<noteq> None then (a3, e3) else if e4 \<noteq> None then (a4, e4)
               else if e5 \<noteq> None then (a5, e5) else (a6, e6))"
proof -
  obtain a1 e1 where b1: "unmarshal_atime toTime mp a = (a1, e1)" by force
  obtain a2 e2 where b2: "unmarshal_mtime toTime mp a1 = (a2, e2)" by force
  obtain a3 e3 where b3: "unmarshal_ctime toTime mp a2 = (a3, e3)" by force
  obtain a4 e4 where b4: "unmarshal_mode mp a3 = (a4, e4)" by force
  obtain a5 e5 where b5: "unmarshal_size toSize mp a4 = (a5, e5)" by force
  obtain a6 e6 where b6: "unmarshal_meta mp a5 = Return (a6, e6)"
    by (rule unmarshal_meta_frame)
  from assms b1 b2 b3 b4 b5 b6 have "UnmarshalJSON toTime toSize a data =
       Return (if e1 \<noteq> None then (a1, e1) else if e2 \<noteq> None then (a2, e2)
               else if e3 \<noteq> None then (a3, e3) else if e4 \<noteq> None then (a4, e4)
               else if e5 \<noteq> None then (a5, e5) else (a6, e6))"
    by (auto simp: UnmarshalJSON_def split: option.splits)
  with b1 b2 b3 b4 b5 b6 show thesis by (rule that)
qed

lemma UnmarshalJSON_not_map:
  "json_Unmarshal_map data = Inl x
     \<Longrightarrow> UnmarshalJSON toTime toSize a data = Return (a, Some NonJSONObject)"
  by (simp add: UnmarshalJSON_def)

text \<open>\<^verbatim>\<open>UnmarshalJSON\<close> returns: it never panics.\<close>

lemma UnmarshalJSON_returns:
  "\<exists>a' err. UnmarshalJSON toTime toSize a data = Return (a', err)"
proof (cases "json_Unmarshal_map data")
  case (Inl x)
  then show ?thesis by (simp add: UnmarshalJSON_def)
next
  case (Inr mp)
  then show ?thesis
    by (rule UnmarshalJSON_blocks [where a = a and toTime = toTime and toSize = toSize]) simp
qed

lemma UnmarshalJSON_null: "UnmarshalJSON toTime toSize a (Text JNull) = Return (a, None)"
  by (simp add: UnmarshalJSON_def json_Unmarshal_map_def unmarshal_atime_def unmarshal_mtime_def
      unmarshal_ctime_def unmarshal_mode_def unmarshal_size_def unmarshal_meta_def)

subsection \<open>The top-level error\<close>

lemma decode_succeeds_iff_fits:
  "(\<exists>v. decode_interface j = Inr v) = fits_float64 j"
  "(\<exists>vs. decode_elems js = Inr vs) = elems_fit js"
  "(\<exists>ds. decode_fields kjs = Inr ds) = fields_fit kjs"
  by (induction j and js and kjs rule: decode_interface_decode_elems_decode_fields.induct)
    (auto split: sum.splits option.splits)

lemma json_Unmarshal_map_object:
  "(\<exists>mp. json_Unmarshal_map (Text (JObject kjs)) = Inr mp) = fields_fit kjs"
  using decode_succeeds_iff_fits(3) [of kjs]
  by (auto simp: json_Unmarshal_map_def split: sum.splits)

lemma json_Unmarshal_map_other:
  assumes "data \<noteq> Text JNull" and "\<forall>kjs. data \<noteq> Text (JObject kjs)"
  shows "\<exists>x. json_Unmarshal_map data = Inl x"
proof (cases data)
  case NotJSON
  then show ?thesis by (simp add: json_Unmarshal_map_def)
next
  case (Text j)
  with assms show ?thesis by (cases j) (simp_all add: json_Unmarshal_map_def)
qed

lemma UnmarshalJSON_map_error:
  assumes "json_Unmarshal_map data = Inr mp"
    and "UnmarshalJSON toTime toSize a data = Return (a', err)"
  shows "err \<noteq> Some NonJSONObject"
proof
  assume "err = Some NonJSONObject"
  with assms(2) have r: "UnmarshalJSON toTime toSize a data = Return (a', Some NonJSONObject)"
    by simp
  from assms(1) obtain a1 e1 a2 e2 a3 e3 a4 e4 a5 e5 a6 e6 where
    b1: "unmarshal_atime toTime mp a = (a1, e1)" and
    b2: "unmarshal_mtime toTime mp a1 = (a2, e2)" and
    b3: "unmarshal_ctime toTime mp a2 = (a3, e3)" and
    b4: "unmarshal_mode mp a3 = (a4, e4)" and
    b5: "unmarshal_size toSize mp a4 = (a5, e5)" and
    b6: "unmarshal_meta mp a5 = Return (a6, e6)" and
    res: "UnmarshalJSON toTime toSize a data =
       Return (if e1 \<noteq> None then (a1, e1) else if e2 \<noteq> None then (a2, e2)
               else if e3 \<noteq> None then (a3, e3) else if e4 \<noteq> None then (a4, e4)
               else if e5 \<noteq> None then (a5, e5) else (a6, e6))"
    by (rule UnmarshalJSON_blocks)
  have "e1 \<noteq> Some NonJSONObject" using unmarshal_atime_frame(2) [OF b1] by auto
  moreover have "e2 \<noteq> Some NonJSONObject" using unmarshal_mtime_frame(2) [OF b2] by auto
  moreover have "e3 \<noteq> Some NonJSONObject" using unmarshal_ctime_frame(2) [OF b3] by auto
  moreover have "e4 \<noteq> Some NonJSONObject" using unmarshal_mode_frame(2) [OF b4] by auto
  moreover have "e5 \<noteq> Some NonJSONObject" using unmarshal_size_frame(2) [OF b5] by auto
  moreover have "e6 \<noteq> Some NonJSONObject" using unmarshal_meta_cases [of mp a5] b6 by auto
  ultimately show False using r res by (auto split: if_splits)
qed

text \<open>
  Claim C8, amended. A payload that is neither a JSON object nor the JSON literal
  \<^verbatim>\<open>null\<close> (an array, a string, a number, a boolean, bytes that are no JSON text) makes
  \<^verbatim>\<open>UnmarshalJSON\<close> return the top-level error and leaves the receiver as it was. The
  literal \<^verbatim>\<open>null\<close> is accepted: the call returns \<^verbatim>\<open>nil\<close> and leaves the receiver as it
  was. A payload that is a JSON object does not fail with the top-level error when all
  its numbers are in the range of \<^verbatim>\<open>float64\<close>, and fails with it (receiver unchanged)
  when one is not.
\<close>

theorem UnmarshalJSON_top_level_error:
  "(data \<noteq> Text JNull \<and> (\<forall>kjs. data \<noteq> Text (JObject kjs))
      \<longrightarrow> UnmarshalJSON toTime toSize a data = Return (a, Some NonJSONObject))
   \<and> UnmarshalJSON toTime toSize a (Text JNull) = Return (a, None)
   \<and> (fields_fit kjs \<longrightarrow>
        (\<exists>a' err. UnmarshalJSON toTime toSize a (Text (JObject kjs)) = Return (a', err)
            \<and> err \<noteq> Some NonJSONObject))
   \<and> (\<not> fields_fit kjs \<longrightarrow>
        UnmarshalJSON toTime toSize a (Text (JObject kjs)) = Return (a, Some NonJSONObject))"
proof (intro conjI impI)
  assume "data \<noteq> Text JNull \<and> (\<forall>kjs. data \<noteq> Text (JObject kjs))"
  then obtain x where "json_Unmarshal_map data = Inl x"
    using json_Unmarshal_map_other by blast
  then show "UnmarshalJSON toTime toSize a data = Return (a, Some NonJSONObject)"
    by (rule UnmarshalJSON_not_map)
next
  show "UnmarshalJSON toTime toSize a (Text JNull) = Return (a, None)"
    by (rule UnmarshalJSON_null)
next
  assume "fields_fit kjs"
  then obtain mp where mp: "json_Unmarshal_map (Text (JObject kjs)) = Inr mp"
    using json_Unmarshal_map_object by blast
  obtain a' err where r: "UnmarshalJSON toTime toSize a (Text (JObject kjs)) = Return (a', err)"
    using UnmarshalJSON_returns by blast
  with UnmarshalJSON_map_error [OF mp r]
  show "\<exists>a' err. UnmarshalJSON toTime toSize a (Text (JObject kjs)) = Return (a', err)
            \<and> err \<noteq> Some NonJSONObject"
    by blast
next
  assume "\<not> fields_fit kjs"
  then obtain x where "json_Unmarshal_map (Text (JObject kjs)) = Inl x"
    using json_Unmarshal_map_object [of kjs]
    by (cases "json_Unmarshal_map (Text (JObject kjs))") auto
  then show "UnmarshalJSON toTime toSize a (Text (JObject kjs)) = Return (a, Some NonJSONObject)"
    by (rule UnmarshalJSON_not_map)
qed

theorem UnmarshalJSON_top_level_error_witness:
  "Text (JArray [JNumber 1]) \<noteq> Text JNull
   \<and> (\<forall>kjs. Text (JArray [JNumber 1]) \<noteq> Text (JObject kjs))
   \<and> UnmarshalJSON munge_ToTime munge_ToSize emptyAttributes (Text (JArray [JNumber 1]))
       = Return (emptyAttributes, Some NonJSONObject)
   \<and> fields_fit [(''size'', JNumber 42)]
   \<and> (\<exists>a' err. UnmarshalJSON munge_ToTime munge_ToSize emptyAttributes
          (Text (JObject [(''size'', JNumber 42)])) = Return (a', err)
        \<and> err \<noteq> Some NonJSONObject)
   \<and> \<not> fields_fit [(''size'', JNumber (2 ^ 1024))]
   \<and> UnmarshalJSON munge_ToTime munge_ToSize emptyAttributes
        (Text (JObject [(''size'', JNumber (2 ^ 1024))]))
       = Return (emptyAttributes, Some NonJSONObject)"
proof -
  have "float64_of (of_int 42) = Some (of_int 42)"
    by (rule float64_of_exact) simp_all
  then have f: "fields_fit [(''size'', JNumber 42)]"
    by simp
  have g: "\<not> fields_fit [(''size'', JNumber (2 ^ 1024))]"
    using float64_of_pow2_overflow [of 1024] by simp
  have d: "Text (JArray [JNumber 1]) \<noteq> Text JNull
      \<and> (\<forall>kjs. Text (JArray [JNumber 1]) \<noteq> Text (JObject kjs))"
    by simp
  from d f g
    UnmarshalJSON_top_level_error [of "Text (JArray [JNumber 1])" munge_ToTime munge_ToSize
      emptyAttributes "[(''size'', JNumber 42)]"]
    UnmarshalJSON_top_level_error [of "Text (JArray [JNumber 1])" munge_ToTime munge_ToSize
      emptyAttributes "[(''size'', JNumber (2 ^ 1024))]"]
  show ?thesis
    by blast
qed

text \<open>
  The claim as stated fails in both halves: \<^verbatim>\<open>null\<close> is not a JSON object and is decoded
  without an error, and the JSON object \<^verbatim>\<open>{"size": n}\<close> with \<open>n = 2 ^ 1024\<close> fails with the
  top-level error.
\<close>

theorem UnmarshalJSON_null_is_no_error:
  "UnmarshalJSON munge_ToTime munge_ToSize emptyAttributes (Text JNull)
     = Return (emptyAttributes, None)
   \<and> UnmarshalJSON munge_ToTime munge_ToSize emptyAttributes
        (Text (JObject [(''size'', JNumber (2 ^ 1024))]))
     = Return (emptyAttributes, Some NonJSONObject)"
proof -
  have "decode_fields [(''size'', JNumber (2 ^ 1024))] = Inl (UnmarshalTypeError ''number'')"
    using float64_of_pow2_overflow [of 1024] by simp
  then have "json_Unmarshal_map (Text (JObject [(''size'', JNumber (2 ^ 1024))]))
      = Inl (UnmarshalTypeError ''number'')"
    by (simp add: json_Unmarshal_map_def)
  then show ?thesis
    by (simp add: UnmarshalJSON_null UnmarshalJSON_not_map)
qed

subsection \<open>An error after some keys were stored\<close>

lemma UnmarshalJSON_meta_not_object:
  "UnmarshalJSON toTime toSize a (Text (JObject [(''meta'', JString s)]))
     = Return (a, Some MetaNotJSONObject)"
  by (simp add: UnmarshalJSON_def json_Unmarshal_map_def store_members_def index_def
      unmarshal_atime_def unmarshal_mtime_def unmarshal_ctime_def unmarshal_mode_def
      unmarshal_size_def unmarshal_meta_def)

text \<open>What a block has stored when it returned no error, and why it returned one.\<close>

lemma unmarshal_atime_stored:
  assumes "unmarshal_atime toTime mp a = (a', e)"
  shows "e = None \<longrightarrow> time_stored toTime mp ''atime'' (atime a) (atime a')"
    and "\<forall>err. e = Some err \<longrightarrow>
           (\<exists>v x. index mp ''atime'' = Some v \<and> toTime v = Inl x \<and> err = AttrMunge ''atime'' x)"
  using unmarshal_atime_cases [OF assms] by (auto simp: time_stored_def SetAtime_def)

lemma unmarshal_mtime_stored:
  assumes "unmarshal_mtime toTime mp a = (a', e)"
  shows "e = None \<longrightarrow> time_stored toTime mp ''mtime'' (mtime a) (mtime a')"
    and "\<forall>err. e = Some err \<longrightarrow>
           (\<exists>v x. index mp ''mtime'' = Some v \<and> toTime v = Inl x \<and> err = AttrMunge ''mtime'' x)"
  using unmarshal_mtime_cases [OF assms] by (auto simp: time_stored_def SetMtime_def)

lemma unmarshal_ctime_stored:
  assumes "unmarshal_ctime toTime mp a = (a', e)"
  shows "e = None \<longrightarrow> time_stored toTime mp ''ctime'' (ctime a) (ctime a')"
    and "\<forall>err. e = Some err \<longrightarrow>
           (\<exists>v x. index mp ''ctime'' = Some v \<and> toTime v = Inl x \<and> err = AttrMunge ''ctime'' x)"
  using unmarshal_ctime_cases [OF assms] by (auto simp: time_stored_def SetCtime_def)

lemma unmarshal_mode_stored:
  assumes "unmarshal_mode mp a = (a', e)"
  shows "e = None \<longrightarrow> mode_stored mp a a'"
    and "\<forall>err. e = Some err \<longrightarrow>
           (\<exists>v. index mp ''mode'' = Some v \<and> (\<forall>raw. v \<noteq> VFloat64 raw)
                \<and> err = AttrMunge ''mode'' (ModeUnexpectedType v))"
  using unmarshal_mode_cases [OF assms]
  by (auto simp: mode_stored_def SetMode_def FileMode_of_float64_in_range)

lemma unmarshal_size_stored:
  assumes "unmarshal_size toSize mp a = (a', e)"
  shows "e = None \<longrightarrow> size_stored toSize mp a a'"
    and "\<forall>err. e = Some err \<longrightarrow>
           (\<exists>v x. index mp ''size'' = Some v \<and> toSize v = Inl x \<and> err = AttrMunge ''size'' x)"
  using unmarshal_size_cases [OF assms] by (auto simp: size_stored_def SetSize_def)

lemma unmarshal_meta_error:
  assumes "unmarshal_meta mp a = Return (a', Some err)"
  shows "\<exists>v. index mp ''meta'' = Some v \<and> (\<forall>m. v \<noteq> VObject m) \<and> err = MetaNotJSONObject \<and> a' = a"
  using unmarshal_meta_cases [of mp a] assms by auto

lemma mode_stored_fields:
  assumes "mode_stored mp b b'"
    and "hasMode a = hasMode b" "mode a = mode b" "hasMode a' = hasMode b'" "mode a' = mode b'"
  shows "mode_stored mp a a'"
  using assms by (simp add: mode_stored_def split: option.splits gval.splits)

lemma size_stored_fields:
  assumes "size_stored toSize mp b b'"
    and "hasSize a = hasSize b" "size' a = size' b" "hasSize a' = hasSize b'" "size' a' = size' b'"
  shows "size_stored toSize mp a a'"
  using assms by (simp add: size_stored_def split: option.splits)

text \<open>
  Claim C2, amended. Decoding is not all-or-nothing for the receiver. The top-level
  error leaves the receiver as it was. When \<^verbatim>\<open>UnmarshalJSON\<close> returns any other error,
  the error is the one of the first key, in the order atime, mtime, ctime, mode, size,
  meta, that is present with a value that does not coerce (for the mode, a value that
  is no \<^verbatim>\<open>float64\<close>; for the meta, a value that is no JSON object); the attribute of that
  key and the attributes of the keys after it are as they were before the call; and
  each key before it has been stored: if present, its attribute is the coerced value
  (with the presence flag set, for mode and size), if absent, its attribute is as it
  was. Decoding \<^verbatim>\<open>{"meta": "not-an-object"}\<close> fails with the meta-shape error and leaves
  the receiver as it was.
\<close>

theorem UnmarshalJSON_error_keeps_earlier_keys:
  "UnmarshalJSON toTime toSize a (Text (JObject [(''meta'', JString ''not-an-object'')]))
     = Return (a, Some MetaNotJSONObject)
   \<and> (json_Unmarshal_map data = Inl x
        \<longrightarrow> UnmarshalJSON toTime toSize a data = Return (a, Some NonJSONObject))
   \<and> (json_Unmarshal_map data = Inr mp
        \<longrightarrow> UnmarshalJSON toTime toSize a data = Return (a', Some err) \<longrightarrow>
        (\<exists>v x. index mp ''atime'' = Some v \<and> toTime v = Inl x
               \<and> err = attrMungeError ''atime'' x \<and> a' = a)
      \<or> (\<exists>v x. index mp ''mtime'' = Some v \<and> toTime v = Inl x
               \<and> err = attrMungeError ''mtime'' x
               \<and> time_stored toTime mp ''atime'' (atime a) (atime a')
               \<and> a' = a\<lparr>atime := atime a'\<rparr>)
      \<or> (\<exists>v x. index mp ''ctime'' = Some v \<and> toTime v = Inl x
               \<and> err = attrMungeError ''ctime'' x
               \<and> time_stored toTime mp ''atime'' (atime a) (atime a')
               \<and> time_stored toTime mp ''mtime'' (mtime a) (mtime a')
               \<and> a' = a\<lparr>atime := atime a', mtime := mtime a'\<rparr>)
      \<or> (\<exists>v. index mp ''mode'' = Some v \<and> (\<forall>raw. v \<noteq> VFloat64 raw)
               \<and> err = attrMungeError ''mode'' (ModeUnexpectedType v)
               \<and> time_stored toTime mp ''atime'' (atime a) (atime a')
               \<and> time_stored toTime mp ''mtime'' (mtime a) (mtime a')
               \<and> time_stored toTime mp ''ctime'' (ctime a) (ctime a')
               \<and> a' = a\<lparr>atime := atime a', mtime := mtime a', ctime := ctime a'\<rparr>)
      \<or> (\<exists>v x. index mp ''size'' = Some v \<and> toSize v = Inl x
               \<and> err = attrMungeError ''size'' x
               \<and> time_stored toTime mp ''atime'' (atime a) (atime a')
               \<and> time_stored toTime mp ''mtime'' (mtime a) (mtime a')
               \<and> time_stored toTime mp ''ctime'' (ctime a) (ctime a')
               \<and> mode_stored mp a a'
               \<and> a' = a\<lparr>atime := atime a', mtime := mtime a', ctime := ctime a',
                         mode := mode a', hasMode := hasMode a'\<rparr>)
      \<or> (\<exists>v. index mp ''meta'' = Some v \<and> (\<forall>m. v \<noteq> VObject m)
               \<and> err = MetaNotJSONObject
               \<and> time_stored toTime mp ''atime'' (atime a) (atime a')
               \<and> time_stored toTime mp ''mtime'' (mtime a) (mtime a')
               \<and> time_stored toTime mp ''ctime'' (ctime a) (ctime a')
               \<and> mode_stored mp a a' \<and> size_stored toSize mp a a'
               \<and> a' = a\<lparr>atime := atime a', mtime := mtime a', ctime := ctime a',
                         mode := mode a', hasMode := hasMode a',
                         size' := size' a', hasSize := hasSize a'\<rparr>))"
proof (intro conjI impI)
  show "UnmarshalJSON toTime toSize a (Text (JObject [(''meta'', JString ''not-an-object'')]))
     = Return (a, Some MetaNotJSONObject)"
    by (rule UnmarshalJSON_meta_not_object)
next
  assume "json_Unmarshal_map data = Inl x"
  then show "UnmarshalJSON toTime toSize a data = Return (a, Some NonJSONObject)"
    by (rule UnmarshalJSON_not_map)
next
  assume mp: "json_Unmarshal_map data = Inr mp"
    and r: "UnmarshalJSON toTime toSize a data = Return (a', Some err)"
  from mp obtain a1 e1 a2 e2 a3 e3 a4 e4 a5 e5 a6 e6 where
    b1: "unmarshal_atime toTime mp a = (a1, e1)" and
    b2: "unmarshal_mtime toTime mp a1 = (a2, e2)" and
    b3: "unmarshal_ctime toTime mp a2 = (a3, e3)" and
    b4: "unmarshal_mode mp a3 = (a4, e4)" and
    b5: "unmarshal_size toSize mp a4 = (a5, e5)" and
    b6: "unmarshal_meta mp a5 = Return (a6, e6)" and
    res: "UnmarshalJSON toTime toSize a data =
       Return (if e1 \<noteq> None then (a1, e1) else if e2 \<noteq> None then (a2, e2)
               else if e3 \<noteq> None then (a3, e3) else if e4 \<noteq> None then (a4, e4)
               else if e5 \<noteq> None then (a5, e5) else (a6, e6))"
    by (rule UnmarshalJSON_blocks)
  note f1 = unmarshal_atime_frame(1) [OF b1] and g1 = unmarshal_atime_frame(2) [OF b1]
  note f2 = unmarshal_mtime_frame(1) [OF b2] and g2 = unmarshal_mtime_frame(2) [OF b2]
  note f3 = unmarshal_ctime_frame(1) [OF b3] and g3 = unmarshal_ctime_frame(2) [OF b3]
  note f4 = unmarshal_mode_frame(1) [OF b4] and g4 = unmarshal_mode_frame(2) [OF b4]
  note f5 = unmarshal_size_frame(1) [OF b5] and g5 = unmarshal_size_frame(2) [OF b5]
  note s1 = unmarshal_atime_stored(1) [OF b1] and x1 = unmarshal_atime_stored(2) [OF b1]
  note s2 = unmarshal_mtime_stored(1) [OF b2] and x2 = unmarshal_mtime_stored(2) [OF b2]
  note s3 = unmarshal_ctime_stored(1) [OF b3] and x3 = unmarshal_ctime_stored(2) [OF b3]
  note s4 = unmarshal_mode_stored(1) [OF b4] and x4 = unmarshal_mode_stored(2) [OF b4]
  note s5 = unmarshal_size_stored(1) [OF b5] and x5 = unmarshal_size_stored(2) [OF b5]
  from r res consider
      (k1) "e1 = Some err" "a' = a1"
    | (k2) "e1 = None" "e2 = Some err" "a' = a2"
    | (k3) "e1 = None" "e2 = None" "e3 = Some err" "a' = a3"
    | (k4) "e1 = None" "e2 = None" "e3 = None" "e4 = Some err" "a' = a4"
    | (k5) "e1 = None" "e2 = None" "e3 = None" "e4 = None" "e5 = Some err" "a' = a5"
    | (k6) "e1 = None" "e2 = None" "e3 = None" "e4 = None" "e5 = None" "e6 = Some err"
        "a' = a6"
    by (auto split: if_splits)
  then show "(\<exists>v x. index mp ''atime'' = Some v \<and> toTime v = Inl x
               \<and> err = attrMungeError ''atime'' x \<and> a' = a)
      \<or> (\<exists>v x. index mp ''mtime'' = Some v \<and> toTime v = Inl x
               \<and> err = attrMungeError ''mtime'' x
               \<and> time_stored toTime mp ''atime'' (atime a) (atime a')
               \<and> a' = a\<lparr>atime := atime a'\<rparr>)
      \<or> (\<exists>v x. index mp ''ctime'' = Some v \<and> toTime v = Inl x
               \<and> err = attrMungeError ''ctime'' x
               \<and> time_stored toTime mp ''atime'' (atime a) (atime a')
               \<and> time_stored toTime mp ''mtime'' (mtime a) (mtime a')
               \<and> a' = a\<lparr>atime := atime a', mtime := mtime a'\<rparr>)
      \<or> (\<exists>v. index mp ''mode'' = Some v \<and> (\<forall>raw. v \<noteq> VFloat64 raw)
               \<and> err = attrMungeError ''mode'' (ModeUnexpectedType v)
               \<and> time_stored toTime mp ''atime'' (atime a) (atime a')
               \<and> time_stored toTime mp ''mtime'' (mtime a) (mtime a')
               \<and> time_stored toTime mp ''ctime'' (ctime a) (ctime a')
               \<and> a' = a\<lparr>atime := atime a', mtime := mtime a', ctime := ctime a'\<rparr>)
      \<or> (\<exists>v x. index mp ''size'' = Some v \<and> toSize v = Inl x
               \<and> err = attrMungeError ''size'' x
               \<and> time_stored toTime mp ''atime'' (atime a) (atime a')
               \<and> time_stored toTime mp ''mtime'' (mtime a) (mtime a')
               \<and> time_stored toTime mp ''ctime'' (ctime a) (ctime a')
               \<and> mode_stored mp a a'
               \<and> a' = a\<lparr>atime := atime a', mtime := mtime a', ctime := ctime a',
                         mode := mode a', hasMode := hasMode a'\<rparr>)
      \<or> (\<exists>v. index mp ''meta'' = Some v \<and> (\<forall>m. v \<noteq> VObject m)
               \<and> err = MetaNotJSONObject
               \<and> time_stored toTime mp ''atime'' (atime a) (atime a')
               \<and> time_stored toTime mp ''mtime'' (mtime a) (mtime a')
               \<and> time_stored toTime mp ''ctime'' (ctime a) (ctime a')
               \<and> mode_stored mp a a' \<and> size_stored toSize mp a a'
               \<and> a' = a\<lparr>atime := atime a', mtime := mtime a', ctime := ctime a',
                         mode := mode a', hasMode := hasMode a',
                         size' := size' a', hasSize := hasSize a'\<rparr>)"
  proof cases
    case k1
    with x1 g1 have "\<exists>v x. index mp ''atime'' = Some v \<and> toTime v = Inl x
               \<and> err = attrMungeError ''atime'' x \<and> a' = a"
      by (auto simp: attrMungeError_def)
    then show ?thesis by (rule disjI1)
  next
    case k2
    from k2 x2 obtain v x where e: "index mp ''mtime'' = Some v" "toTime v = Inl x"
      "err = attrMungeError ''mtime'' x"
      by (auto simp: attrMungeError_def)
    from k2 g2 have a': "a' = a1" by auto
    from k2 s1 have t1: "time_stored toTime mp ''atime'' (atime a) (atime a')"
      by (simp add: a')
    from f1 have "a1 = a\<lparr>atime := atime a1\<rparr>"
      by (intro EntryAttributes.equality) simp_all
    with e t1 a' have "\<exists>v x. index mp ''mtime'' = Some v \<and> toTime v = Inl x
               \<and> err = attrMungeError ''mtime'' x
               \<and> time_stored toTime mp ''atime'' (atime a) (atime a')
               \<and> a' = a\<lparr>atime := atime a'\<rparr>"
      by auto
    then show ?thesis by (intro disjI2 disjI1)
  next
    case k3
    from k3 x3 obtain v x where e: "index mp ''ctime'' = Some v" "toTime v = Inl x"
      "err = attrMungeError ''ctime'' x"
      by (auto simp: attrMungeError_def)
    from k3 g3 have a': "a' = a2" by auto
    from k3 s1 f2 have t1: "time_stored toTime mp ''atime'' (atime a) (atime a')"
      by (simp add: a')
    from k3 s2 f1 have t2: "time_stored toTime mp ''mtime'' (mtime a) (mtime a')"
      by (simp add: a')
    from f1 f2 have "a2 = a\<lparr>atime := atime a2, mtime := mtime a2\<rparr>"
      by (intro EntryAttributes.equality) simp_all
    with e t1 t2 a' have "\<exists>v x. index mp ''ctime'' = Some v \<and> toTime v = Inl x
               \<and> err = attrMungeError ''ctime'' x
               \<and> time_stored toTime mp ''atime'' (atime a) (atime a')
               \<and> time_stored toTime mp ''mtime'' (mtime a) (mtime a')
               \<and> a' = a\<lparr>atime := atime a', mtime := mtime a'\<rparr>"
      by auto
    then show ?thesis by (intro disjI2 disjI1)
  next
    case k4
    from k4 x4 obtain v where e: "index mp ''mode'' = Some v" "\<forall>raw. v \<noteq> VFloat64 raw"
      "err = attrMungeError ''mode'' (ModeUnexpectedType v)"
      by (auto simp: attrMungeError_def)
    from k4 g4 have a': "a' = a3" by auto
    from k4 s1 f2 f3 have t1: "time_stored toTime mp ''atime'' (atime a) (atime a')"
      by (simp add: a')
    from k4 s2 f1 f3 have t2: "time_stored toTime mp ''mtime'' (mtime a) (mtime a')"
      by (simp add: a')
    from k4 s3 f1 f2 have t3: "time_stored toTime mp ''ctime'' (ctime a) (ctime a')"
      by (simp add: a')
    from f1 f2 f3 have "a3 = a\<lparr>atime := atime a3, mtime := mtime a3, ctime := ctime a3\<rparr>"
      by (intro EntryAttributes.equality) simp_all
    with e t1 t2 t3 a' have "\<exists>v. index mp ''mode'' = Some v \<and> (\<forall>raw. v \<noteq> VFloat64 raw)
               \<and> err = attrMungeError ''mode'' (ModeUnexpectedType v)
               \<and> time_stored toTime mp ''atime'' (atime a) (atime a')
               \<and> time_stored toTime mp ''mtime'' (mtime a) (mtime a')
               \<and> time_stored toTime mp ''ctime'' (ctime a) (ctime a')
               \<and> a' = a\<lparr>atime := atime a', mtime := mtime a', ctime := ctime a'\<rparr>"
      by auto
    then show ?thesis by (intro disjI2 disjI1)
  next
    case k5
    from k5 x5 obtain v x where e: "index mp ''size'' = Some v" "toSize v = Inl x"
      "err = attrMungeError ''size'' x"
      by (auto simp: attrMungeError_def)
    from k5 g5 have a': "a' = a4" by auto
    from k5 s1 f2 f3 f4 have t1: "time_stored toTime mp ''atime'' (atime a) (atime a')"
      by (simp add: a')
    from k5 s2 f1 f3 f4 have t2: "time_stored toTime mp ''mtime'' (mtime a) (mtime a')"
      by (simp add: a')
    from k5 s3 f1 f2 f4 have t3: "time_stored toTime mp ''ctime'' (ctime a) (ctime a')"
      by (simp add: a')
    from k5 s4 have "mode_stored mp a3 a4" by simp
    then have t4: "mode_stored mp a a'"
      by (rule mode_stored_fields) (use f1 f2 f3 a' in simp_all)
    from f1 f2 f3 f4 have "a4 = a\<lparr>atime := atime a4, mtime := mtime a4, ctime := ctime a4,
        mode := mode a4, hasMode := hasMode a4\<rparr>"
      by (intro EntryAttributes.equality) simp_all
    with e t1 t2 t3 t4 a' have "\<exists>v x. index mp ''size'' = Some v \<and> toSize v = Inl x
               \<and> err = attrMungeError ''size'' x
               \<and> time_stored toTime mp ''atime'' (atime a) (atime a')
               \<and> time_stored toTime mp ''mtime'' (mtime a) (mtime a')
               \<and> time_stored toTime mp ''ctime'' (ctime a) (ctime a')
               \<and> mode_stored mp a a'
               \<and> a' = a\<lparr>atime := atime a', mtime := mtime a', ctime := ctime a',
                         mode := mode a', hasMode := hasMode a'\<rparr>"
      by auto
    then show ?thesis by (intro disjI2 disjI1)
  next
    case k6
    from k6 b6 have "unmarshal_meta mp a5 = Return (a6, Some err)" by simp
    from unmarshal_meta_error [OF this] obtain v where e: "index mp ''meta'' = Some v"
      "\<forall>m. v \<noteq> VObject m" "err = MetaNotJSONObject" and "a6 = a5"
      by auto
    with k6 have a': "a' = a5" by simp
    from k6 s1 f2 f3 f4 f5 have t1: "time_stored toTime mp ''atime'' (atime a) (atime a')"
      by (simp add: a')
    from k6 s2 f1 f3 f4 f5 have t2: "time_stored toTime mp ''mtime'' (mtime a) (mtime a')"
      by (simp add: a')
    from k6 s3 f1 f2 f4 f5 have t3: "time_stored toTime mp ''ctime'' (ctime a) (ctime a')"
      by (simp add: a')
    from k6 s4 have "mode_stored mp a3 a4" by simp
    then have t4: "mode_stored mp a a'"
      by (rule mode_stored_fields) (use f1 f2 f3 f5 a' in simp_all)
    from k6 s5 have "size_stored toSize mp a4 a5" by simp
    then have t5: "size_stored toSize mp a a'"
      by (rule size_stored_fields) (use f1 f2 f3 f4 a' in simp_all)
    from f1 f2 f3 f4 f5
    have "a5 = a\<lparr>atime := atime a5, mtime := mtime a5, ctime := ctime a5,
        mode := mode a5, hasMode := hasMode a5, size' := size' a5, hasSize := hasSize a5\<rparr>"
      by (intro EntryAttributes.equality) simp_all
    with e t1 t2 t3 t4 t5 a' have "\<exists>v. index mp ''meta'' = Some v \<and> (\<forall>m. v \<noteq> VObject m)
               \<and> err = MetaNotJSONObject
               \<and> time_stored toTime mp ''atime'' (atime a) (atime a')
               \<and> time_stored toTime mp ''mtime'' (mtime a) (mtime a')
               \<and> time_stored toTime mp ''ctime'' (ctime a) (ctime a')
               \<and> mode_stored mp a a' \<and> size_stored toSize mp a a'
               \<and> a' = a\<lparr>atime := atime a', mtime := mtime a', ctime := ctime a',
                         mode := mode a', hasMode := hasMode a',
                         size' := size' a', hasSize := hasSize a'\<rparr>"
      by auto
    then show ?thesis by (intro disjI2)
  qed
qed


theorem UnmarshalJSON_error_keeps_earlier_keys_witness:
  "json_Unmarshal_map
      (Text (JObject [(''atime'', JString ''2019-06-01T12:00:00Z''), (''mode'', JNumber 493),
                      (''size'', JString ''big'')]))
    = Inr (Some [(''atime'', VString ''2019-06-01T12:00:00Z''), (''mode'', VFloat64 493),
                 (''size'', VString ''big'')])
   \<and> (\<exists>a'. UnmarshalJSON munge_ToTime munge_ToSize emptyAttributes
          (Text (JObject [(''atime'', JString ''2019-06-01T12:00:00Z''), (''mode'', JNumber 493),
                          (''size'', JString ''big'')]))
        = Return (a', Some (attrMungeError ''size'' (CoercionError (VString ''big''))))
      \<and> munge_ToTime (VString ''2019-06-01T12:00:00Z'') = Inr (atime a')
      \<and> hasMode a' \<and> mode a' = 493
      \<and> a' = emptyAttributes\<lparr>atime := atime a', mode := mode a', hasMode := hasMode a'\<rparr>)"
proof -
  let ?data = "Text (JObject [(''atime'', JString ''2019-06-01T12:00:00Z''),
      (''mode'', JNumber 493), (''size'', JString ''big'')])"
  let ?mp = "Some [(''atime'', VString ''2019-06-01T12:00:00Z''), (''mode'', VFloat64 493),
      (''size'', VString ''big'')]"
  let ?a' = "emptyAttributes\<lparr>atime := \<lparr>sec = 63694987200, nsec = 0\<rparr>, mode := 493,
      hasMode := True\<rparr>"
  let ?err = "attrMungeError ''size'' (CoercionError (VString ''big''))"
  have d: "json_Unmarshal_map ?data = Inr ?mp"
    by code_simp
  have h: "UnmarshalJSON munge_ToTime munge_ToSize emptyAttributes ?data
      = Return (?a', Some ?err)"
    by code_simp
  have i: "index ?mp ''atime'' = Some (VString ''2019-06-01T12:00:00Z'')"
    "index ?mp ''mtime'' = None" "index ?mp ''ctime'' = None"
    "index ?mp ''mode'' = Some (VFloat64 493)"
    by (simp_all add: index_def)
  have f: "\<lfloor>493 :: rat\<rfloor> = 493"
    by simp
  from UnmarshalJSON_error_keeps_earlier_keys [of munge_ToTime munge_ToSize emptyAttributes
      ?data undefined ?mp ?a' ?err] d h
  have "time_stored munge_ToTime ?mp ''atime'' (atime emptyAttributes) (atime ?a')
      \<and> time_stored munge_ToTime ?mp ''mtime'' (mtime emptyAttributes) (mtime ?a')
      \<and> time_stored munge_ToTime ?mp ''ctime'' (ctime emptyAttributes) (ctime ?a')
      \<and> mode_stored ?mp emptyAttributes ?a'
      \<and> ?a' = emptyAttributes\<lparr>atime := atime ?a', mtime := mtime ?a', ctime := ctime ?a',
                         mode := mode ?a', hasMode := hasMode ?a'\<rparr>"
    by (auto simp: attrMungeError_def)
  then have "munge_ToTime (VString ''2019-06-01T12:00:00Z'') = Inr (atime ?a')
      \<and> hasMode ?a' \<and> mode ?a' = 493
      \<and> ?a' = emptyAttributes\<lparr>atime := atime ?a', mode := mode ?a', hasMode := hasMode ?a'\<rparr>"
    by (simp add: time_stored_def mode_stored_def i emptyAttributes_def)
  with h have "\<exists>a'. UnmarshalJSON munge_ToTime munge_ToSize emptyAttributes ?data
        = Return (a', Some ?err)
      \<and> munge_ToTime (VString ''2019-06-01T12:00:00Z'') = Inr (atime a')
      \<and> hasMode a' \<and> mode a' = 493
      \<and> a' = emptyAttributes\<lparr>atime := atime a', mode := mode a', hasMode := hasMode a'\<rparr>"
    by (intro exI [of _ ?a']) simp
  with d show ?thesis
    by (intro conjI)
qed

text \<open>
  The claim as stated fails: decoding \<^verbatim>\<open>{"mode": 493, "meta": "not-an-object"}\<close> into the
  empty record returns the meta-shape error, and the receiver has the mode set.
\<close>

theorem UnmarshalJSON_error_after_mode_stored:
  "UnmarshalJSON munge_ToTime munge_ToSize emptyAttributes
      (Text (JObject [(''mode'', JNumber 493), (''meta'', JString ''not-an-object'')]))
    = Return (emptyAttributes\<lparr>mode := 493, hasMode := True\<rparr>, Some MetaNotJSONObject)
   \<and> \<not> HasMode emptyAttributes
   \<and> HasMode (emptyAttributes\<lparr>mode := 493, hasMode := True\<rparr>)"
  by code_simp

subsection \<open>The mode key\<close>

lemma first_time_failure_blocks:
  assumes "unmarshal_atime toTime mp a = (a1, e1)"
    "unmarshal_mtime toTime mp a1 = (a2, e2)"
    "unmarshal_ctime toTime mp a2 = (a3, e3)"
  shows "first_time_failure toTime mp = None \<longleftrightarrow> e1 = None \<and> e2 = None \<and> e3 = None"
    and "first_time_failure toTime mp = Some (k, x) \<longrightarrow>
           e1 = Some (AttrMunge k x)
         \<or> (e1 = None \<and> e2 = Some (AttrMunge k x))
         \<or> (e1 = None \<and> e2 = None \<and> e3 = Some (AttrMunge k x))"
  using unmarshal_atime_cases [OF assms(1)] unmarshal_mtime_cases [OF assms(2)]
    unmarshal_ctime_cases [OF assms(3)]
  by (auto simp: first_time_failure_def)

text \<open>
  Claim C7, amended. For every input document that decodes to a map with a \<^verbatim>\<open>"mode"\<close>
  key. If one of the atime, mtime and ctime keys is present and does not coerce, the
  error of \<^verbatim>\<open>UnmarshalJSON\<close> names the first of them in that order, with the error of the
  coercion service, and the mode is untouched, whatever the shape of the mode value.
  Otherwise: if the mode value is a \<^verbatim>\<open>float64\<close>, the mode block stores it, so
  \<^verbatim>\<open>HasMode()\<close> is true, and the mode is the whole part of the number when the number is
  from 0 up to \<open>2 ^ 32\<close> (Go does not say what it is for any other number); any other
  shape of the value makes \<^verbatim>\<open>UnmarshalJSON\<close> return the error that names the mode
  attribute, and the mode is untouched. A \<^verbatim>\<open>float64\<close> never gives an error naming the
  mode attribute, and any other shape always gives some error.
\<close>

theorem UnmarshalJSON_mode_key:
  assumes "json_Unmarshal_map data = Inr mp" and "index mp ''mode'' = Some v"
  shows "\<exists>a' err. UnmarshalJSON toTime toSize a data = Return (a', err) \<and>
     (\<forall>k x. first_time_failure toTime mp = Some (k, x) \<longrightarrow>
        err = Some (attrMungeError k x) \<and> HasMode a' = HasMode a \<and> Mode a' = Mode a)
     \<and> (\<forall>raw. v = VFloat64 raw \<longrightarrow>
        (\<forall>x. err \<noteq> Some (attrMungeError ''mode'' x))
        \<and> (err = None \<or> first_time_failure toTime mp = None
             \<longrightarrow> HasMode a'
                 \<and> (0 \<le> raw \<and> raw < 2 ^ 32 \<longrightarrow> Mode a' = word_of_int \<lfloor>raw\<rfloor>)))
     \<and> ((\<forall>raw. v \<noteq> VFloat64 raw) \<longrightarrow>
          err \<noteq> None
          \<and> (first_time_failure toTime mp = None
               \<longrightarrow> err = Some (attrMungeError ''mode'' (ModeUnexpectedType v))
                   \<and> HasMode a' = HasMode a \<and> Mode a' = Mode a))"
proof -
  from assms(1) obtain a1 e1 a2 e2 a3 e3 a4 e4 a5 e5 a6 e6 where
    b1: "unmarshal_atime toTime mp a = (a1, e1)" and
    b2: "unmarshal_mtime toTime mp a1 = (a2, e2)" and
    b3: "unmarshal_ctime toTime mp a2 = (a3, e3)" and
    b4: "unmarshal_mode mp a3 = (a4, e4)" and
    b5: "unmarshal_size toSize mp a4 = (a5, e5)" and
    b6: "unmarshal_meta mp a5 = Return (a6, e6)" and
    res: "UnmarshalJSON toTime toSize a data =
       Return (if e1 \<noteq> None then (a1, e1) else if e2 \<noteq> None then (a2, e2)
               else if e3 \<noteq> None then (a3, e3) else if e4 \<noteq> None then (a4, e4)
               else if e5 \<noteq> None then (a5, e5) else (a6, e6))"
    by (rule UnmarshalJSON_blocks)
  note tc = first_time_failure_blocks(1) [OF b1 b2 b3]
  note tf = first_time_failure_blocks(2) [OF b1 b2 b3]
  have n5: "e5 \<noteq> None \<longrightarrow> (\<exists>x. e5 = Some (AttrMunge ''size'' x))"
    using unmarshal_size_frame(2) [OF b5] by blast
  have n6: "e6 = None \<or> e6 = Some MetaNotJSONObject"
    using unmarshal_meta_cases [of mp a5] b6 by auto
  have m1: "hasMode a1 = hasMode a \<and> mode a1 = mode a"
    using unmarshal_atime_frame(1) [OF b1] by simp
  have m2: "hasMode a2 = hasMode a \<and> mode a2 = mode a"
    using unmarshal_mtime_frame(1) [OF b2] m1 by simp
  have m3: "hasMode a3 = hasMode a \<and> mode a3 = mode a"
    using unmarshal_ctime_frame(1) [OF b3] m2 by simp
  have m5: "hasMode a5 = hasMode a4 \<and> mode a5 = mode a4"
    using unmarshal_size_frame(1) [OF b5] by simp
  have m6: "hasMode a6 = hasMode a4 \<and> mode a6 = mode a4"
    using unmarshal_meta_cases [of mp a5] b6 m5 by auto
  define a' where "a' = fst (if e1 \<noteq> None then (a1, e1) else if e2 \<noteq> None then (a2, e2)
               else if e3 \<noteq> None then (a3, e3) else if e4 \<noteq> None then (a4, e4)
               else if e5 \<noteq> None then (a5, e5) else (a6, e6))"
  define err where "err = snd (if e1 \<noteq> None then (a1, e1) else if e2 \<noteq> None then (a2, e2)
               else if e3 \<noteq> None then (a3, e3) else if e4 \<noteq> None then (a4, e4)
               else if e5 \<noteq> None then (a5, e5) else (a6, e6))"
  have res': "UnmarshalJSON toTime toSize a data = Return (a', err)"
    by (simp add: res a'_def err_def)
  have early: "err = Some (attrMungeError k x) \<and> HasMode a' = HasMode a \<and> Mode a' = Mode a"
    if "first_time_failure toTime mp = Some (k, x)" for k x
    using tf [of k x] that m1 m2 m3
    by (auto simp: err_def a'_def attrMungeError_def HasMode_def Mode_def)
  have late: "(a', err) = (if e4 \<noteq> None then (a4, e4) else if e5 \<noteq> None then (a5, e5)
                           else (a6, e6))"
    if "first_time_failure toTime mp = None"
    using that tc by (simp add: a'_def err_def)
  have numeric: "(\<forall>x. err \<noteq> Some (attrMungeError ''mode'' x))
        \<and> (err = None \<or> first_time_failure toTime mp = None
             \<longrightarrow> HasMode a'
                 \<and> (0 \<le> raw \<and> raw < 2 ^ 32 \<longrightarrow> Mode a' = word_of_int \<lfloor>raw\<rfloor>))"
    if v: "v = VFloat64 raw" for raw
  proof -
    from unmarshal_mode_cases [OF b4] assms(2) v
    have m: "e4 = None" "a4 = SetMode a3 (FileMode_of_float64 raw)" by auto
    have k: "hasMode a4 \<and> (0 \<le> raw \<and> raw < 2 ^ 32 \<longrightarrow> mode a4 = word_of_int \<lfloor>raw\<rfloor>)"
      by (simp add: m SetMode_def FileMode_of_float64_in_range)
    show ?thesis
    proof (cases "first_time_failure toTime mp")
      case None
      from late [OF None] m k m5 m6 n5 n6 show ?thesis
        by (auto simp: attrMungeError_def HasMode_def Mode_def split: if_splits)
    next
      case (Some p)
      obtain k' x' where p: "p = (k', x')" by (cases p)
      from Some p have ff: "first_time_failure toTime mp = Some (k', x')" by simp
      then have "k' \<in> {''atime'', ''mtime'', ''ctime''}"
        by (auto simp: first_time_failure_def split: option.splits sum.splits)
      with early [OF ff] ff show ?thesis
        by (auto simp: attrMungeError_def)
    qed
  qed
  have other: "err \<noteq> None
          \<and> (first_time_failure toTime mp = None
               \<longrightarrow> err = Some (attrMungeError ''mode'' (ModeUnexpectedType v))
                   \<and> HasMode a' = HasMode a \<and> Mode a' = Mode a)"
    if v: "\<forall>raw. v \<noteq> VFloat64 raw"
  proof -
    from unmarshal_mode_cases [OF b4] assms(2) v
    have m: "e4 = Some (AttrMunge ''mode'' (ModeUnexpectedType v))" "a4 = a3" by auto
    show ?thesis
    proof (cases "first_time_failure toTime mp")
      case None
      from late [OF None] m m3 None show ?thesis
        by (simp add: attrMungeError_def HasMode_def Mode_def)
    next
      case (Some p)
      obtain k' x' where p: "p = (k', x')" by (cases p)
      from Some p have ff: "first_time_failure toTime mp = Some (k', x')" by simp
      with early [OF ff] show ?thesis
        by simp
    qed
  qed
  have c1: "\<forall>k x. first_time_failure toTime mp = Some (k, x) \<longrightarrow>
        err = Some (attrMungeError k x) \<and> HasMode a' = HasMode a \<and> Mode a' = Mode a"
    by (intro allI impI) (rule early)
  have c2: "\<forall>raw. v = VFloat64 raw \<longrightarrow>
        (\<forall>x. err \<noteq> Some (attrMungeError ''mode'' x))
        \<and> (err = None \<or> first_time_failure toTime mp = None
             \<longrightarrow> HasMode a'
                 \<and> (0 \<le> raw \<and> raw < 2 ^ 32 \<longrightarrow> Mode a' = word_of_int \<lfloor>raw\<rfloor>))"
    by (intro allI impI) (rule numeric)
  have c3: "(\<forall>raw. v \<noteq> VFloat64 raw) \<longrightarrow>
          err \<noteq> None
          \<and> (first_time_failure toTime mp = None
               \<longrightarrow> err = Some (attrMungeError ''mode'' (ModeUnexpectedType v))
                   \<and> HasMode a' = HasMode a \<and> Mode a' = Mode a)"
    by (intro impI) (rule other)
  show ?thesis
    by (rule exI [of _ a'], rule exI [of _ err], intro conjI, rule res', rule c1, rule c2,
        rule c3)
qed

theorem UnmarshalJSON_mode_key_witness:
  "json_Unmarshal_map (Text (JObject [(''mode'', JString ''rwx'')]))
     = Inr (Some [(''mode'', VString ''rwx'')])
   \<and> index (Some [(''mode'', VString ''rwx'')]) ''mode'' = Some (VString ''rwx'')
   \<and> first_time_failure munge_ToTime (Some [(''mode'', VString ''rwx'')]) = None
   \<and> (\<exists>a'. UnmarshalJSON munge_ToTime munge_ToSize emptyAttributes
               (Text (JObject [(''mode'', JString ''rwx'')]))
             = Return (a', Some (attrMungeError ''mode'' (ModeUnexpectedType (VString ''rwx''))))
          \<and> HasMode a' = HasMode emptyAttributes)
   \<and> json_Unmarshal_map (Text (JObject [(''mode'', JNumber 493)]))
     = Inr (Some [(''mode'', VFloat64 493)])
   \<and> index (Some [(''mode'', VFloat64 493)]) ''mode'' = Some (VFloat64 493)
   \<and> first_time_failure munge_ToTime (Some [(''mode'', VFloat64 493)]) = None
   \<and> (\<exists>a' err. UnmarshalJSON munge_ToTime munge_ToSize emptyAttributes
               (Text (JObject [(''mode'', JNumber 493)])) = Return (a', err)
          \<and> HasMode a' \<and> Mode a' = 493)
   \<and> json_Unmarshal_map
       (Text (JObject [(''atime'', JString ''2019-06-01T12:00:00Z''), (''mtime'', JBool True),
                       (''ctime'', JBool False), (''mode'', JNumber 493)]))
     = Inr (Some [(''atime'', VString ''2019-06-01T12:00:00Z''), (''mtime'', VBool True),
                  (''ctime'', VBool False), (''mode'', VFloat64 493)])
   \<and> index (Some [(''atime'', VString ''2019-06-01T12:00:00Z''), (''mtime'', VBool True),
                  (''ctime'', VBool False), (''mode'', VFloat64 493)]) ''mode''
     = Some (VFloat64 493)
   \<and> first_time_failure munge_ToTime
       (Some [(''atime'', VString ''2019-06-01T12:00:00Z''), (''mtime'', VBool True),
              (''ctime'', VBool False), (''mode'', VFloat64 493)])
     = Some (''mtime'', CoercionError (VBool True))
   \<and> (\<exists>a'. UnmarshalJSON munge_ToTime munge_ToSize emptyAttributes
         (Text (JObject [(''atime'', JString ''2019-06-01T12:00:00Z''), (''mtime'', JBool True),
                         (''ctime'', JBool False), (''mode'', JNumber 493)]))
        = Return (a', Some (attrMungeError ''mtime'' (CoercionError (VBool True))))
      \<and> \<not> HasMode a')"
proof -
  have d1: "json_Unmarshal_map (Text (JObject [(''mode'', JString ''rwx'')]))
     = Inr (Some [(''mode'', VString ''rwx'')])"
    by (simp add: json_Unmarshal_map_def store_members_def)
  have i1: "index (Some [(''mode'', VString ''rwx'')]) ''mode'' = Some (VString ''rwx'')"
    by (simp add: index_def)
  have t1: "first_time_failure munge_ToTime (Some [(''mode'', VString ''rwx'')]) = None"
    by (simp add: first_time_failure_def index_def)
  have "float64_of (of_int 493) = Some (of_int 493)"
    by (rule float64_of_exact) simp_all
  then have d2: "json_Unmarshal_map (Text (JObject [(''mode'', JNumber 493)]))
     = Inr (Some [(''mode'', VFloat64 493)])"
    by (simp add: json_Unmarshal_map_def store_members_def)
  have i2: "index (Some [(''mode'', VFloat64 493)]) ''mode'' = Some (VFloat64 493)"
    by (simp add: index_def)
  have t2: "first_time_failure munge_ToTime (Some [(''mode'', VFloat64 493)]) = None"
    by (simp add: first_time_failure_def index_def)
  have d3: "json_Unmarshal_map
       (Text (JObject [(''atime'', JString ''2019-06-01T12:00:00Z''), (''mtime'', JBool True),
                       (''ctime'', JBool False), (''mode'', JNumber 493)]))
     = Inr (Some [(''atime'', VString ''2019-06-01T12:00:00Z''), (''mtime'', VBool True),
                  (''ctime'', VBool False), (''mode'', VFloat64 493)])"
    by code_simp
  have i3: "index (Some [(''atime'', VString ''2019-06-01T12:00:00Z''), (''mtime'', VBool True),
                  (''ctime'', VBool False), (''mode'', VFloat64 493)]) ''mode''
     = Some (VFloat64 493)"
    by (simp add: index_def)
  have t3: "first_time_failure munge_ToTime
       (Some [(''atime'', VString ''2019-06-01T12:00:00Z''), (''mtime'', VBool True),
              (''ctime'', VBool False), (''mode'', VFloat64 493)])
     = Some (''mtime'', CoercionError (VBool True))"
    by code_simp
  have f: "(0 :: rat) \<le> 493 \<and> (493 :: rat) < 2 ^ 32 \<and> word_of_int \<lfloor>493 :: rat\<rfloor> = (493 :: 32 word)"
    by simp
  from UnmarshalJSON_mode_key [OF d1 i1, of munge_ToTime munge_ToSize emptyAttributes] t1
  have w1: "\<exists>a'. UnmarshalJSON munge_ToTime munge_ToSize emptyAttributes
               (Text (JObject [(''mode'', JString ''rwx'')]))
             = Return (a', Some (attrMungeError ''mode'' (ModeUnexpectedType (VString ''rwx''))))
          \<and> HasMode a' = HasMode emptyAttributes"
    by auto
  from UnmarshalJSON_mode_key [OF d2 i2, of munge_ToTime munge_ToSize emptyAttributes] t2 f
  have w2: "\<exists>a' err. UnmarshalJSON munge_ToTime munge_ToSize emptyAttributes
               (Text (JObject [(''mode'', JNumber 493)])) = Return (a', err)
          \<and> HasMode a' \<and> Mode a' = 493"
    by auto
  have e: "\<not> HasMode emptyAttributes"
    by (simp add: HasMode_def emptyAttributes_def)
  from UnmarshalJSON_mode_key [OF d3 i3, of munge_ToTime munge_ToSize emptyAttributes] t3 e
  have w3: "\<exists>a'. UnmarshalJSON munge_ToTime munge_ToSize emptyAttributes
         (Text (JObject [(''atime'', JString ''2019-06-01T12:00:00Z''), (''mtime'', JBool True),
                         (''ctime'', JBool False), (''mode'', JNumber 493)]))
        = Return (a', Some (attrMungeError ''mtime'' (CoercionError (VBool True))))
      \<and> \<not> HasMode a'"
    by auto
  from d1 i1 t1 w1 d2 i2 t2 w2 d3 i3 t3 w3 show ?thesis
    by (intro conjI)
qed

text \<open>
  The claim as stated fails: in \<^verbatim>\<open>{"atime": true, "mode": "rwx"}\<close> the mode is no number,
  and the error that \<^verbatim>\<open>UnmarshalJSON\<close> returns names the atime attribute, since the atime
  block runs first and \<^verbatim>\<open>true\<close> is no moment in time.
\<close>

theorem UnmarshalJSON_error_names_first_failing_key:
  "UnmarshalJSON munge_ToTime munge_ToSize emptyAttributes
      (Text (JObject [(''atime'', JBool True), (''mode'', JString ''rwx'')]))
    = Return (emptyAttributes, Some (attrMungeError ''atime'' (CoercionError (VBool True))))"
  by code_simp

section \<open>Encoding and decoding again\<close>

lemma ToMap_all_present:
  assumes "\<not> IsZero (atime r)" "\<not> IsZero (mtime r)" "\<not> IsZero (ctime r)" "hasMode r" "hasSize r"
    "meta r = None"
  shows "ToMap r False =
           [(''atime'', VTime (atime r)), (''mtime'', VTime (mtime r)), (''ctime'', VTime (ctime r)),
            (''mode'', VString (FileMode_String (mode r))), (''size'', VUint64 (size' r))]"
    and "ToMap r True =
           [(''atime'', VTime (atime r)), (''mtime'', VTime (mtime r)), (''ctime'', VTime (ctime r)),
            (''mode'', VString (FileMode_String (mode r))), (''size'', VUint64 (size' r)),
            (''meta'', VObject (ToMap r False))]"
  using assms
  by (simp_all add: HasAtime_def HasMtime_def HasCtime_def HasMode_def HasSize_def
      Atime_def Mtime_def Ctime_def Mode_def Size_def)

text \<open>The text that \<^verbatim>\<open>MarshalJSON\<close> writes for a record with all five attributes.\<close>

lemma MarshalJSON_all_present:
  assumes "\<not> IsZero (atime r)" "\<not> IsZero (mtime r)" "\<not> IsZero (ctime r)" "hasMode r" "hasSize r"
    "meta r = None"
    and "MarshalJSON r = Inr data"
  obtains sa sm sc where
    "Time_MarshalJSON (atime r) = Inr sa" "Time_MarshalJSON (mtime r) = Inr sm"
    "Time_MarshalJSON (ctime r) = Inr sc"
    "data = Text (JObject
       [(''atime'', JString sa), (''mtime'', JString sm), (''ctime'', JString sc),
        (''mode'', JNumber (of_int (uint (mode r)))), (''size'', JNumber (of_int (uint (size' r)))),
        (''meta'', JObject
           [(''atime'', JString sa), (''mtime'', JString sm), (''ctime'', JString sc),
            (''mode'', JString (FileMode_String (mode r))),
            (''size'', JNumber (of_int (uint (size' r))))])])"
proof -
  note tm = ToMap_all_present [OF assms(1-6)]
  from assms(7) show thesis
    unfolding MarshalJSON_def Let_def tm
    by (auto simp: HasMode_def Mode_def assms(4) intro!: that split: sum.splits
        simp del: of_int_uint)
qed

text \<open>
  Claim C1, amended. Let \<open>r\<close> be a record with atime, mtime, ctime (each not the zero
  moment), mode and size set and no meta stored. If \<^verbatim>\<open>MarshalJSON\<close> encodes \<open>r\<close> (it
  fails for a year outside \<^verbatim>\<open>[0,9999]\<close>), the size is a whole number that \<^verbatim>\<open>float64\<close>
  holds exactly (every size up to \<open>2 ^ 53\<close> is one), and the coercion service turns the
  RFC 3339 text of each of the three times back into that time and the \<^verbatim>\<open>float64\<close> of
  the size back into the size, then \<^verbatim>\<open>UnmarshalJSON\<close> of the encoding returns \<^verbatim>\<open>nil\<close> and
  leaves atime, mtime, ctime, mode and size equal to those of \<open>r\<close>. The mode needs no
  hypothesis: every \<^verbatim>\<open>uint32\<close> is a \<^verbatim>\<open>float64\<close>.
\<close>

theorem UnmarshalJSON_of_MarshalJSON:
  assumes present: "HasAtime r" "HasMtime r" "HasCtime r" "HasMode r" "HasSize r" "meta r = None"
    and enc: "MarshalJSON r = Inr data"
    and exact: "float64_of (of_int (uint (Size r))) = Some (of_int (uint (Size r)))"
    and times: "\<forall>t s. t \<in> {Atime r, Mtime r, Ctime r} \<longrightarrow> Time_MarshalJSON t = Inr s
                  \<longrightarrow> toTime (VString s) = Inr t"
    and sz: "toSize (VFloat64 (of_int (uint (Size r)))) = Inr (Size r)"
  shows "\<exists>a'. UnmarshalJSON toTime toSize a data = Return (a', None)
           \<and> Atime a' = Atime r \<and> Mtime a' = Mtime r \<and> Ctime a' = Ctime r
           \<and> HasMode a' \<and> Mode a' = Mode r \<and> HasSize a' \<and> Size a' = Size r"
proof -
  from present have p: "\<not> IsZero (atime r)" "\<not> IsZero (mtime r)" "\<not> IsZero (ctime r)"
    "hasMode r" "hasSize r" "meta r = None"
    by (simp_all add: HasAtime_def HasMtime_def HasCtime_def HasMode_def HasSize_def)
  from p enc obtain sa sm sc where
    ta: "Time_MarshalJSON (atime r) = Inr sa" and tm: "Time_MarshalJSON (mtime r) = Inr sm" and
    tc: "Time_MarshalJSON (ctime r) = Inr sc" and
    data: "data = Text (JObject
       [(''atime'', JString sa), (''mtime'', JString sm), (''ctime'', JString sc),
        (''mode'', JNumber (of_int (uint (mode r)))), (''size'', JNumber (of_int (uint (size' r)))),
        (''meta'', JObject
           [(''atime'', JString sa), (''mtime'', JString sm), (''ctime'', JString sc),
            (''mode'', JString (FileMode_String (mode r))),
            (''size'', JNumber (of_int (uint (size' r))))])])"
    by (rule MarshalJSON_all_present)
  from exact have ex: "float64_of (of_int (uint (size' r))) = Some (of_int (uint (size' r)))"
    by (simp only: Size_def)
  define mp where "mp =
     [(''atime'', VString sa), (''mtime'', VString sm), (''ctime'', VString sc),
      (''mode'', VFloat64 (of_int (uint (mode r)))), (''size'', VFloat64 (of_int (uint (size' r)))),
      (''meta'', VObject
         [(''atime'', VString sa), (''mtime'', VString sm), (''ctime'', VString sc),
          (''mode'', VString (FileMode_String (mode r))),
          (''size'', VFloat64 (of_int (uint (size' r))))])]"
  have dec: "json_Unmarshal_map data = Inr (Some mp)"
    unfolding data mp_def
    by (simp add: json_Unmarshal_map_def store_members_def float64_of_uint32 ex del: of_int_uint)
  from times ta tm tc have tt: "toTime (VString sa) = Inr (atime r)"
    "toTime (VString sm) = Inr (mtime r)" "toTime (VString sc) = Inr (ctime r)"
    by (simp_all add: Atime_def Mtime_def Ctime_def)
  from sz have ts: "toSize (VFloat64 (of_int (uint (size' r)))) = Inr (size' r)"
    by (simp only: Size_def)
  have b1: "unmarshal_atime toTime (Some mp) a = (SetAtime a (atime r), None)"
    by (simp add: unmarshal_atime_def index_def mp_def tt)
  have b2: "unmarshal_mtime toTime (Some mp) a1 = (SetMtime a1 (mtime r), None)" for a1
    by (simp add: unmarshal_mtime_def index_def mp_def tt)
  have b3: "unmarshal_ctime toTime (Some mp) a2 = (SetCtime a2 (ctime r), None)" for a2
    by (simp add: unmarshal_ctime_def index_def mp_def tt)
  have b4: "unmarshal_mode (Some mp) a3 = (SetMode a3 (mode r), None)" for a3
    by (simp add: unmarshal_mode_def index_def mp_def FileMode_of_float64_uint del: of_int_uint)
  have b5: "unmarshal_size toSize (Some mp) a4 = (SetSize a4 (size' r), None)" for a4
    by (simp add: unmarshal_size_def index_def mp_def ts del: of_int_uint)
  have b6: "\<exists>m. unmarshal_meta (Some mp) a5 = Return (a5\<lparr>meta := Some m\<rparr>, None)" for a5
    by (simp add: unmarshal_meta_def index_def mp_def SetMeta_object del: of_int_uint) blast
  from b6 obtain m where
    "unmarshal_meta (Some mp)
       (SetSize (SetMode (SetCtime (SetMtime (SetAtime a (atime r)) (mtime r)) (ctime r)) (mode r))
          (size' r))
     = Return ((SetSize (SetMode (SetCtime (SetMtime (SetAtime a (atime r)) (mtime r)) (ctime r))
                  (mode r)) (size' r))\<lparr>meta := Some m\<rparr>, None)"
    by blast
  then have "UnmarshalJSON toTime toSize a data =
     Return ((SetSize (SetMode (SetCtime (SetMtime (SetAtime a (atime r)) (mtime r)) (ctime r))
                  (mode r)) (size' r))\<lparr>meta := Some m\<rparr>, None)"
    by (simp add: UnmarshalJSON_def dec b1 b2 b3 b4 b5)
  then show ?thesis
    by (simp add: Atime_def Mtime_def Ctime_def HasMode_def Mode_def HasSize_def Size_def
        SetAtime_def SetMtime_def SetCtime_def SetMode_def SetSize_def)
qed

lemma exampleFile_present:
  "HasAtime (exampleFile n)" "HasMtime (exampleFile n)" "HasCtime (exampleFile n)"
  "HasMode (exampleFile n)" "HasSize (exampleFile n)" "meta (exampleFile n) = None"
  by (simp_all add: exampleFile_def HasAtime_def HasMtime_def HasCtime_def HasMode_def
      HasSize_def IsZero_def)

theorem UnmarshalJSON_of_MarshalJSON_witness:
  "HasAtime (exampleFile 42) \<and> HasMtime (exampleFile 42) \<and> HasCtime (exampleFile 42)
   \<and> HasMode (exampleFile 42) \<and> HasSize (exampleFile 42) \<and> meta (exampleFile 42) = None
   \<and> float64_of (of_int (uint (Size (exampleFile 42))))
       = Some (of_int (uint (Size (exampleFile 42))))
   \<and> munge_ToSize (VFloat64 (of_int (uint (Size (exampleFile 42))))) = Inr (Size (exampleFile 42))
   \<and> (\<exists>a'. roundtrip munge_ToTime munge_ToSize (exampleFile 42) = Return (a', None)
          \<and> Atime a' = Atime (exampleFile 42) \<and> Mtime a' = Mtime (exampleFile 42)
          \<and> Ctime a' = Ctime (exampleFile 42) \<and> HasMode a' \<and> Mode a' = Mode (exampleFile 42)
          \<and> HasSize a' \<and> Size a' = Size (exampleFile 42))"
proof -
  have enc: "MarshalJSON (exampleFile 42) = Inr (Text (JObject
       [(''atime'', JString ''2019-06-01T12:00:00.12Z''),
        (''mtime'', JString ''2019-06-01T12:00:00Z''),
        (''ctime'', JString ''2019-06-01T00:00:00Z''),
        (''mode'', JNumber 420), (''size'', JNumber 42),
        (''meta'', JObject
           [(''atime'', JString ''2019-06-01T12:00:00.12Z''),
            (''mtime'', JString ''2019-06-01T12:00:00Z''),
            (''ctime'', JString ''2019-06-01T00:00:00Z''),
            (''mode'', JString ''-rw-r--r--''), (''size'', JNumber 42)])]))"
    by code_simp
  have exact: "float64_of (of_int (uint (Size (exampleFile 42))))
       = Some (of_int (uint (Size (exampleFile 42))))"
    by (rule float64_of_exact) (simp_all add: Size_def exampleFile_def)
  have sz: "munge_ToSize (VFloat64 (of_int (uint (Size (exampleFile 42)))))
       = Inr (Size (exampleFile 42))"
    by (simp add: munge_ToSize_def Size_def exampleFile_def)
  have fmt: "Time_MarshalJSON (Atime (exampleFile 42)) = Inr ''2019-06-01T12:00:00.12Z''"
    "Time_MarshalJSON (Mtime (exampleFile 42)) = Inr ''2019-06-01T12:00:00Z''"
    "Time_MarshalJSON (Ctime (exampleFile 42)) = Inr ''2019-06-01T00:00:00Z''"
    by code_simp+
  have prs: "munge_ToTime (VString ''2019-06-01T12:00:00.12Z'') = Inr (Atime (exampleFile 42))"
    "munge_ToTime (VString ''2019-06-01T12:00:00Z'') = Inr (Mtime (exampleFile 42))"
    "munge_ToTime (VString ''2019-06-01T00:00:00Z'') = Inr (Ctime (exampleFile 42))"
    by code_simp+
  from fmt prs have times: "\<forall>t s. t \<in> {Atime (exampleFile 42), Mtime (exampleFile 42),
        Ctime (exampleFile 42)} \<longrightarrow> Time_MarshalJSON t = Inr s
      \<longrightarrow> munge_ToTime (VString s) = Inr t"
    by auto
  from UnmarshalJSON_of_MarshalJSON [where toTime = munge_ToTime and toSize = munge_ToSize
      and a = emptyAttributes, OF exampleFile_present [of 42] enc exact times sz]
  have "\<exists>a'. roundtrip munge_ToTime munge_ToSize (exampleFile 42) = Return (a', None)
          \<and> Atime a' = Atime (exampleFile 42) \<and> Mtime a' = Mtime (exampleFile 42)
          \<and> Ctime a' = Ctime (exampleFile 42) \<and> HasMode a' \<and> Mode a' = Mode (exampleFile 42)
          \<and> HasSize a' \<and> Size a' = Size (exampleFile 42)"
    by (simp add: roundtrip_def enc)
  with exampleFile_present [of 42] exact sz show ?thesis
    by (intro conjI)
qed

text \<open>
  Two records that differ in the size only, \<open>2 ^ 53\<close> and \<open>2 ^ 53 + 1\<close> bytes, are
  encoded to texts that \<^verbatim>\<open>json.Unmarshal\<close> reads as the same map: the two numbers are the
  same \<^verbatim>\<open>float64\<close>. So whatever the coercion service does, the two decode alike.
\<close>

lemma roundtrip_sizes_collapse:
  "roundtrip toTime toSize (exampleFile 9007199254740992)
     = roundtrip toTime toSize (exampleFile 9007199254740993)"
proof -
  have "(case (MarshalJSON (exampleFile 9007199254740992),
               MarshalJSON (exampleFile 9007199254740993)) of
           (Inr d1, Inr d2) \<Rightarrow> json_Unmarshal_map d1 = json_Unmarshal_map d2
         | _ \<Rightarrow> False)"
    by code_simp
  then obtain d1 d2 where "MarshalJSON (exampleFile 9007199254740992) = Inr d1"
    and "MarshalJSON (exampleFile 9007199254740993) = Inr d2"
    and "json_Unmarshal_map d1 = json_Unmarshal_map d2"
    by (auto split: sum.splits)
  then show ?thesis
    by (simp add: roundtrip_def UnmarshalJSON_def)
qed

text \<open>
  The claim as stated fails: the example file of \<open>2 ^ 53 + 1\<close> bytes has the five
  attributes set and no meta stored, and its size comes back as \<open>2 ^ 53\<close>. No coercion
  service repairs this: none returns both the example of \<open>2 ^ 53\<close> bytes and the example
  of \<open>2 ^ 53 + 1\<close> bytes with their sizes. And a record whose atime is in the year 10000
  is not encoded at all.
\<close>

theorem roundtrip_loses_size:
  "HasAtime (exampleFile 9007199254740993) \<and> HasMtime (exampleFile 9007199254740993)
   \<and> HasCtime (exampleFile 9007199254740993) \<and> HasMode (exampleFile 9007199254740993)
   \<and> HasSize (exampleFile 9007199254740993) \<and> meta (exampleFile 9007199254740993) = None
   \<and> Size (exampleFile 9007199254740993) = 9007199254740993
   \<and> roundtrip munge_ToTime munge_ToSize (exampleFile 9007199254740993) =
       Return ((exampleFile 9007199254740992)
                 \<lparr>meta := Some [(''atime'', VString ''2019-06-01T12:00:00.12Z''),
                                (''mtime'', VString ''2019-06-01T12:00:00Z''),
                                (''ctime'', VString ''2019-06-01T00:00:00Z''),
                                (''mode'', VString ''-rw-r--r--''),
                                (''size'', VFloat64 9007199254740992)]\<rparr>, None)
   \<and> \<not> (\<exists>toTime toSize a1 a2.
          roundtrip toTime toSize (exampleFile 9007199254740992) = Return (a1, None)
          \<and> Size a1 = 9007199254740992
          \<and> roundtrip toTime toSize (exampleFile 9007199254740993) = Return (a2, None)
          \<and> Size a2 = 9007199254740993)
   \<and> MarshalJSON ((exampleFile 42)\<lparr>atime := \<lparr>sec = 315537897600, nsec = 0\<rparr>\<rparr>)
       = Inl (MarshalerError ''Time.MarshalJSON: year outside of range [0,9999]'')"
proof -
  have "MarshalJSON ((exampleFile 42)\<lparr>atime := \<lparr>sec = 315537897600, nsec = 0\<rparr>\<rparr>)
       = Inl (MarshalerError ''Time.MarshalJSON: year outside of range [0,9999]'')"
    by code_simp
  moreover have "roundtrip munge_ToTime munge_ToSize (exampleFile 9007199254740993) =
       Return ((exampleFile 9007199254740992)
                 \<lparr>meta := Some [(''atime'', VString ''2019-06-01T12:00:00.12Z''),
                                (''mtime'', VString ''2019-06-01T12:00:00Z''),
                                (''ctime'', VString ''2019-06-01T00:00:00Z''),
                                (''mode'', VString ''-rw-r--r--''),
                                (''size'', VFloat64 9007199254740992)]\<rparr>, None)"
    by code_simp
  moreover have "Size (exampleFile 9007199254740993) = 9007199254740993"
    by (simp add: Size_def exampleFile_def)
  moreover have "\<not> (\<exists>toTime toSize a1 a2.
          roundtrip toTime toSize (exampleFile 9007199254740992) = Return (a1, None)
          \<and> Size a1 = 9007199254740992
          \<and> roundtrip toTime toSize (exampleFile 9007199254740993) = Return (a2, None)
          \<and> Size a2 = 9007199254740993)"
    using roundtrip_sizes_collapse by auto
  ultimately show ?thesis
    using exampleFile_present [of 9007199254740993] by (intro conjI)
qed

section \<open>The meta attribute\<close>

subsection \<open>\<^verbatim>\<open>SetMeta\<close> on a value that is no object\<close>

lemma ToJSONObject_serialization:
  assumes "\<forall>m. obj \<noteq> Val (VObject m)"
  shows "ToJSONObject obj =
     (case serialization obj of
        Inl err \<Rightarrow> Panic err
      | Inr inrec \<Rightarrow> (case json_Unmarshal_map inrec of
                        Inl err \<Rightarrow> Fatal err
                      | Inr m \<Rightarrow> Return m))"
proof (cases obj)
  case (Raw arr)
  then show ?thesis by (simp add: ToJSONObject_def serialization_def)
next
  case (Val x)
  with assms show ?thesis
    by (cases x) (simp_all add: ToJSONObject_def serialization_def split: sum.splits)
qed

text \<open>
  Claim C4 at the input where the code departs from it. The nil interface value is
  serialized to the text \<^verbatim>\<open>null\<close>, which is no JSON object, and \<^verbatim>\<open>SetMeta(nil)\<close> returns:
  the record is as before, with a nil meta. The same holds for the bytes \<^verbatim>\<open>null\<close>.
\<close>

theorem SetMeta_nil_returns:
  "serialization (Val VNil) = Inr (Text JNull)
   \<and> SetMeta a (Val VNil) = Return (a\<lparr>meta := None\<rparr>)
   \<and> SetMeta a (Raw (Text JNull)) = Return (a\<lparr>meta := None\<rparr>)"
  by (simp add: serialization_def SetMeta_def ToJSONObject_def json_Unmarshal_map_def)

subsection \<open>\<^verbatim>\<open>Meta\<close> after \<^verbatim>\<open>SetMeta\<close>\<close>

text \<open>
  Claim C9 at the input where the code departs from it. After
  \<^verbatim>\<open>attr.SetSize(5).SetMeta(nil)\<close> the call of \<^verbatim>\<open>SetMeta\<close> has returned and has stored the nil
  map, and \<^verbatim>\<open>Meta()\<close> returns \<^verbatim>\<open>ToMap(false)\<close>, the map with the size, not what was stored.
\<close>

theorem Meta_after_SetMeta_nil:
  "chain emptyAttributes [CallSetSize 5, CallSetMeta (Val VNil)]
     = Return (SetSize emptyAttributes 5)
   \<and> ToJSONObject (Val VNil) = Return None
   \<and> meta (SetSize emptyAttributes 5) = None
   \<and> Meta (SetSize emptyAttributes 5) = [(''size'', VUint64 5)]
   \<and> ToMap (SetSize emptyAttributes 5) False = [(''size'', VUint64 5)]"
  by (simp add: SetMeta_def ToJSONObject_def json_Unmarshal_map_def SetSize_def
      emptyAttributes_def HasAtime_def HasMtime_def HasCtime_def HasMode_def HasSize_def
      Size_def IsZero_def zeroTime_def)

section \<open>Further properties\<close>

text \<open>
  \<^verbatim>\<open>UnmarshalJSON\<close> returns for every payload, every receiver and every coercion
  service: with \<^verbatim>\<open>nil\<close> or with an error, never with a panic.
\<close>

theorem UnmarshalJSON_never_panics:
  "\<exists>a' err. UnmarshalJSON toTime toSize a data = Return (a', err)"
  by (rule UnmarshalJSON_returns)

text \<open>
  The spec's example: decoding \<^verbatim>\<open>{"size": 42, "mode": 493}\<close> gives a record with
  \<^verbatim>\<open>HasSize()\<close>, \<^verbatim>\<open>Size() == 42\<close> and \<^verbatim>\<open>HasMode()\<close>, whose map shows the mode as
  \<^verbatim>\<open>-rwxr-xr-x\<close>, for every coercion service that turns the number 42 into the size 42.
\<close>

theorem decode_size_and_mode:
  assumes "toSize (VFloat64 42) = Inr 42"
  shows "\<exists>a'. UnmarshalJSON toTime toSize emptyAttributes
                 (Text (JObject [(''size'', JNumber 42), (''mode'', JNumber 493)]))
               = Return (a', None)
           \<and> HasSize a' \<and> Size a' = 42 \<and> HasMode a'
           \<and> map_of (ToMap a' False) ''mode'' = Some (VString ''-rwxr-xr-x'')"
proof -
  have f: "float64_of 42 = Some 42" "float64_of 493 = Some 493"
    using float64_of_exact [of 42] float64_of_exact [of 493] by simp_all
  have m: "FileMode_of_float64 493 = 493"
    using FileMode_of_float64_uint [of 493] by simp
  have s: "FileMode_String 493 = ''-rwxr-xr-x''"
    by code_simp
  have "UnmarshalJSON toTime toSize emptyAttributes
          (Text (JObject [(''size'', JNumber 42), (''mode'', JNumber 493)]))
        = Return (SetSize (SetMode emptyAttributes 493) 42, None)"
    by (simp add: UnmarshalJSON_def json_Unmarshal_map_def store_members_def index_def f m assms
        unmarshal_atime_def unmarshal_mtime_def unmarshal_ctime_def unmarshal_mode_def
        unmarshal_size_def unmarshal_meta_def)
  moreover have "map_of (ToMap (SetSize (SetMode emptyAttributes 493) 42) False) ''mode''
      = Some (VString ''-rwxr-xr-x'')"
    by (simp add: Let_def update_conv' HasMode_def HasSize_def Mode_def SetMode_def SetSize_def s)
  ultimately show ?thesis
    by (simp add: HasSize_def Size_def HasMode_def SetSize_def SetMode_def)
qed

theorem decode_size_and_mode_witness:
  "munge_ToSize (VFloat64 42) = Inr 42
   \<and> (\<exists>a'. UnmarshalJSON munge_ToTime munge_ToSize emptyAttributes
                 (Text (JObject [(''size'', JNumber 42), (''mode'', JNumber 493)]))
               = Return (a', None)
           \<and> HasSize a' \<and> Size a' = 42 \<and> HasMode a'
           \<and> map_of (ToMap a' False) ''mode'' = Some (VString ''-rwxr-xr-x''))"
proof -
  have h: "munge_ToSize (VFloat64 42) = Inr 42"
    by (simp add: munge_ToSize_def)
  from h decode_size_and_mode [where toSize = munge_ToSize and toTime = munge_ToTime, OF h]
  show ?thesis by (intro conjI)
qed

text \<open>
  What holds of \<^verbatim>\<open>SetMeta\<close> for a value that is not a \<^verbatim>\<open>JSONObject\<close> already: the call
  returns exactly when the serialization is the JSON literal \<^verbatim>\<open>null\<close> or a JSON object
  whose numbers all fit \<^verbatim>\<open>float64\<close>. For every other value it does not return: it
  panics when \<^verbatim>\<open>json.Marshal\<close> fails, and ends in \<^verbatim>\<open>errz.Fatal\<close> when the text is an array,
  a string, a number, a boolean or no JSON at all.
\<close>

theorem SetMeta_returns_iff:
  assumes "\<forall>m. obj \<noteq> Val (VObject m)"
  shows "(\<exists>a'. SetMeta a obj = Return a') \<longleftrightarrow>
         (\<exists>j. serialization obj = Inr (Text j)
               \<and> (j = JNull \<or> (\<exists>kjs. j = JObject kjs \<and> fields_fit kjs)))"
proof (cases "serialization obj")
  case (Inl err)
  then show ?thesis
    by (simp add: SetMeta_def ToJSONObject_serialization [OF assms])
next
  case (Inr inrec)
  show ?thesis
  proof (cases inrec)
    case NotJSON
    with Inr show ?thesis
      by (simp add: SetMeta_def ToJSONObject_serialization [OF assms] json_Unmarshal_map_def)
  next
    case (Text j)
    show ?thesis
    proof (cases "\<exists>kjs. j = JObject kjs")
      case True
      then obtain kjs where j: "j = JObject kjs" ..
      from json_Unmarshal_map_object [of kjs] Inr Text j show ?thesis
        by (cases "json_Unmarshal_map (Text (JObject kjs))")
          (auto simp: SetMeta_def ToJSONObject_serialization [OF assms])
    next
      case False
      with Inr Text show ?thesis
        by (cases j)
          (simp_all add: SetMeta_def ToJSONObject_serialization [OF assms] json_Unmarshal_map_def)
    qed
  qed
qed

theorem SetMeta_returns_iff_witness:
  "(\<forall>m. Val (VString ''c1'') \<noteq> Val (VObject m))
   \<and> serialization (Val (VString ''c1'')) = Inr (Text (JString ''c1''))
   \<and> \<not> (\<exists>a'. SetMeta emptyAttributes (Val (VString ''c1'')) = Return a')
   \<and> (\<forall>m. Val (VStruct [(''Name'', VString ''c1'')]) \<noteq> Val (VObject m))
   \<and> serialization (Val (VStruct [(''Name'', VString ''c1'')]))
       = Inr (Text (JObject [(''Name'', JString ''c1'')]))
   \<and> (\<exists>a'. SetMeta emptyAttributes (Val (VStruct [(''Name'', VString ''c1'')])) = Return a')"
proof -
  have n1: "\<forall>m. Val (VString ''c1'') \<noteq> Val (VObject m)"
    and n2: "\<forall>m. Val (VStruct [(''Name'', VString ''c1'')]) \<noteq> Val (VObject m)"
    by simp_all
  have s1: "serialization (Val (VString ''c1'')) = Inr (Text (JString ''c1''))"
    and s2: "serialization (Val (VStruct [(''Name'', VString ''c1'')]))
       = Inr (Text (JObject [(''Name'', JString ''c1'')]))"
    by (simp_all add: serialization_def)
  from SetMeta_returns_iff [OF n1, of emptyAttributes] s1
  have w1: "\<not> (\<exists>a'. SetMeta emptyAttributes (Val (VString ''c1'')) = Return a')"
    by simp
  from SetMeta_returns_iff [OF n2, of emptyAttributes] s2
  have w2: "\<exists>a'. SetMeta emptyAttributes (Val (VStruct [(''Name'', VString ''c1'')])) = Return a'"
    by simp
  from n1 s1 w1 n2 s2 w2 show ?thesis
    by (intro conjI)
qed

text \<open>
  What holds of \<^verbatim>\<open>Meta\<close>: for a record built without \<^verbatim>\<open>SetMeta\<close> it is \<^verbatim>\<open>ToMap(false)\<close>;
  after a call of \<^verbatim>\<open>SetMeta\<close> that returns, it is the object that the call stored when
  that object is not nil, and \<^verbatim>\<open>ToMap(false)\<close> when it is nil.
\<close>

theorem Meta_override_or_projection:
  "(chain emptyAttributes cs = Return r \<longrightarrow> (\<forall>obj. CallSetMeta obj \<notin> set cs)
      \<longrightarrow> Meta r = ToMap r False)
   \<and> (SetMeta a obj = Return a' \<longrightarrow>
        (\<forall>m. ToJSONObject obj = Return (Some m) \<longrightarrow> Meta a' = m)
        \<and> (ToJSONObject obj = Return None \<longrightarrow> Meta a' = ToMap a' False))"
proof (intro conjI impI allI)
  assume "chain emptyAttributes cs = Return r" and "\<forall>obj. CallSetMeta obj \<notin> set cs"
  with chain_frame(6) [of emptyAttributes cs r] have "meta r = None"
    by (simp add: emptyAttributes_def)
  then show "Meta r = ToMap r False"
    by (simp del: ToMap.simps)
next
  fix m
  assume "SetMeta a obj = Return a'" and "ToJSONObject obj = Return (Some m)"
  then have "meta a' = Some m"
    by (auto dest: SetMeta_Return)
  then show "Meta a' = m"
    by simp
next
  assume "SetMeta a obj = Return a'" and "ToJSONObject obj = Return None"
  then have "meta a' = None"
    by (auto dest: SetMeta_Return)
  then show "Meta a' = ToMap a' False"
    by (simp del: ToMap.simps)
qed

theorem Meta_override_or_projection_witness:
  "chain emptyAttributes [CallSetSize 5] = Return (SetSize emptyAttributes 5)
   \<and> (\<forall>obj. CallSetMeta obj \<notin> set [CallSetSize 5])
   \<and> Meta (SetSize emptyAttributes 5) = ToMap (SetSize emptyAttributes 5) False
   \<and> SetMeta emptyAttributes (Val (VObject [(''id'', VString ''c1'')]))
       = Return (emptyAttributes\<lparr>meta := Some [(''id'', VString ''c1'')]\<rparr>)
   \<and> ToJSONObject (Val (VObject [(''id'', VString ''c1'')]))
       = Return (Some [(''id'', VString ''c1'')])
   \<and> Meta (emptyAttributes\<lparr>meta := Some [(''id'', VString ''c1'')]\<rparr>) = [(''id'', VString ''c1'')]"
proof -
  have c: "chain emptyAttributes [CallSetSize 5] = Return (SetSize emptyAttributes 5)"
    and n: "\<forall>obj. CallSetMeta obj \<notin> set [CallSetSize 5]"
    by simp_all
  have s: "SetMeta emptyAttributes (Val (VObject [(''id'', VString ''c1'')]))
       = Return (emptyAttributes\<lparr>meta := Some [(''id'', VString ''c1'')]\<rparr>)"
    by (rule SetMeta_object)
  have t: "ToJSONObject (Val (VObject [(''id'', VString ''c1'')]))
       = Return (Some [(''id'', VString ''c1'')])"
    by (simp add: ToJSONObject_def)
  from c n s t
    Meta_override_or_projection [of "[CallSetSize 5]" "SetSize emptyAttributes 5"
      emptyAttributes "Val (VObject [(''id'', VString ''c1'')])"
      "emptyAttributes\<lparr>meta := Some [(''id'', VString ''c1'')]\<rparr>"]
  show ?thesis
    by blast
qed

end
